theory Spec2Isabelle
  imports Main "HOL-Library.Word"
begin

unbundle bit_operations_syntax

section \<open>Platform values used by audio_manager_impl.cpp\<close>

text \<open>
  An HRESULT is a signed 32-bit value; \<open>FAILED\<close> tests its sign and \<open>HRESULT_CODE\<close>
  keeps its low 16 bits. These macros, \<open>HRESULT_FROM_WIN32\<close>, the error number
  \<open>ERROR_NOT_FOUND\<close>, the format tags and the two sub-format identifiers come from the
  platform headers the source includes (winerror.h, mmreg.h, ksmedia.h).
\<close>

type_synonym hresult = "32 word"

definition FAILED :: "hresult \<Rightarrow> bool" where
  "FAILED hr = (sint hr < 0)"

definition HRESULT_CODE :: "hresult \<Rightarrow> 32 word" where
  "HRESULT_CODE hr = hr AND 0xFFFF"

definition ERROR_NOT_FOUND :: "32 word" where
  "ERROR_NOT_FOUND = 1168"

definition HRESULT_FROM_WIN32 :: "32 word \<Rightarrow> hresult" where
  "HRESULT_FROM_WIN32 x =
     (if sint x \<le> 0 then x else (x AND 0xFFFF) OR push_bit 16 7 OR 0x80000000)"

definition WAVE_FORMAT_PCM :: "16 word" where
  "WAVE_FORMAT_PCM = 1"

definition WAVE_FORMAT_IEEE_FLOAT :: "16 word" where
  "WAVE_FORMAT_IEEE_FLOAT = 3"

definition WAVE_FORMAT_EXTENSIBLE :: "16 word" where
  "WAVE_FORMAT_EXTENSIBLE = 0xFFFE"

type_synonym guid = "32 word \<times> 16 word \<times> 16 word \<times> 8 word list"

definition KSDATAFORMAT_SUBTYPE_PCM :: guid where
  "KSDATAFORMAT_SUBTYPE_PCM =
     (0x00000001, 0x0000, 0x0010, [0x80, 0x00, 0x00, 0xaa, 0x00, 0x38, 0x9b, 0x71])"

definition KSDATAFORMAT_SUBTYPE_IEEE_FLOAT :: guid where
  "KSDATAFORMAT_SUBTYPE_IEEE_FLOAT =
     (0x00000003, 0x0000, 0x0010, [0x80, 0x00, 0x00, 0xaa, 0x00, 0x38, 0x9b, 0x71])"

definition IsEqualGUID :: "guid \<Rightarrow> guid \<Rightarrow> bool" where
  "IsEqualGUID a b = (a = b)"

text \<open>
  The native format the device reports. \<open>SubFormat\<close> is the field the source reaches by
  casting the pointer to WAVEFORMATEXTENSIBLE; it is read only when the tag is
  \<open>WAVE_FORMAT_EXTENSIBLE\<close>.
\<close>

record WAVEFORMATEX =
  wFormatTag :: "16 word"
  nChannels :: "16 word"
  nSamplesPerSec :: "32 word"
  nAvgBytesPerSec :: "32 word"
  nBlockAlign :: "16 word"
  wBitsPerSample :: "16 word"
  cbSize :: "16 word"
  SubFormat :: guid

datatype stream_flag = AUDCLNT_STREAMFLAGS_LOOPBACK | AUDCLNT_STREAMFLAGS_EVENTCALLBACK

datatype data_flow = eRender | eCapture

datatype role = eConsole | eMultimedia | eCommunications

section \<open>Runs: the calls made, the lines logged, and how the function ends\<close>

text \<open>
  Every call into the audio subsystem is recorded with its arguments and the HRESULT
  the subsystem answered. \<open>TimerWait ec\<close> is one \<open>timer.wait(ec)\<close>, with whether it set
  the error code. \<open>Broadcast count block_align\<close> is one call of
  \<open>network_manager->broadcast_audio_data\<close>. Of the log lines only warnings and errors
  are kept; the error line of \<open>exit_on_failed\<close> is kept as its three arguments, the last
  being the code whose system message text it prints.
\<close>

datatype os_call =
    CoCreateInstance
  | GetDevice string
  | OpenPropertyStore
  | GetValue
  | Activate
  | GetMixFormat
  | GetDevicePeriod
  | Initialize stream_flag int WAVEFORMATEX
  | GetBufferSize
  | GetService
  | Start
  | GetNextPacketSize
  | GetBuffer
  | ReleaseBuffer "32 word"
  | Stop
  | EnumAudioEndpoints data_flow
  | GetCount
  | Item "32 word"
  | GetId
  | GetDefaultAudioEndpoint data_flow role

datatype log_entry = Warn string | Error string string "32 word"

datatype event =
    Call os_call hresult
  | TimerWait bool
  | Broadcast int "16 word"
  | Log log_entry

text \<open>
  A function either returns to its caller, or the process is ended by \<open>exit\<close> with a
  status, or (for the capture loop, whose ticks are supplied as a finite script) the
  script is used up while the loop is still going.
\<close>

datatype 'a outcome = Returned 'a | Exited int | StillRunning

type_synonym 'a run = "event list \<times> 'a outcome"

definition andThen :: "'a run \<Rightarrow> ('a \<Rightarrow> 'b run) \<Rightarrow> 'b run" where
  "andThen m f =
     (case m of
        (evs, Returned a) \<Rightarrow> (case f a of (evs', r) \<Rightarrow> (evs @ evs', r))
      | (evs, Exited n) \<Rightarrow> (evs, Exited n)
      | (evs, StillRunning) \<Rightarrow> (evs, StillRunning))"

definition os :: "os_call \<Rightarrow> hresult \<Rightarrow> unit run" where
  "os c hr = ([Call c hr], Returned ())"

definition say :: "log_entry \<Rightarrow> unit run" where
  "say l = ([Log l], Returned ())"

definition exit_on_failed :: "hresult \<Rightarrow> string \<Rightarrow> string \<Rightarrow> unit run" where
  "exit_on_failed hr message func =
     (if FAILED hr then ([Log (Error func message (HRESULT_CODE hr))], Exited (- 1))
      else ([], Returned ()))"

text \<open>The text of the error line, given the system's message table.\<close>

fun render :: "(32 word \<Rightarrow> string) \<Rightarrow> log_entry \<Rightarrow> string" where
  "render wstr_win_err (Warn s) = s"
| "render wstr_win_err (Error func message code) =
     ''exit_on_failed '' @ func @ '' '' @ message @ '' '' @ wstr_win_err code"

text \<open>A straight run of calls, each followed by \<open>exit_on_failed(hr, message)\<close>.\<close>

fun checked :: "(os_call \<times> hresult \<times> string) list \<Rightarrow> unit run" where
  "checked [] = ([], Returned ())"
| "checked ((c, hr, message) # rest) =
     andThen (os c hr) (\<lambda>_. andThen (exit_on_failed hr message '''') (\<lambda>_. checked rest))"

section \<open>set_format\<close>

text \<open>
  Modelled from the spec: the message type AudioFormat is generated code (client.pb.h)
  that is not part of the sources; it has the four fields the spec's data model lists,
  and the setters store their argument. The tag field holds the number the source
  passes to \<open>set_format_tag\<close>.
\<close>

record AudioFormat =
  format_tag :: "16 word"
  channels :: "16 word"
  sample_rate :: "32 word"
  bits_per_sample :: "16 word"

definition set_format :: "AudioFormat \<Rightarrow> WAVEFORMATEX \<Rightarrow> AudioFormat" where
  "set_format fmt format =
     (let fmt1 =
        (if wFormatTag format = WAVE_FORMAT_PCM \<or> wFormatTag format = WAVE_FORMAT_IEEE_FLOAT
         then fmt\<lparr>format_tag := wFormatTag format\<rparr>
         else if wFormatTag format = WAVE_FORMAT_EXTENSIBLE
         then (if IsEqualGUID (SubFormat format) KSDATAFORMAT_SUBTYPE_PCM
               then fmt\<lparr>format_tag := WAVE_FORMAT_PCM\<rparr>
               else if IsEqualGUID (SubFormat format) KSDATAFORMAT_SUBTYPE_IEEE_FLOAT
               then fmt\<lparr>format_tag := WAVE_FORMAT_IEEE_FLOAT\<rparr>
               else fmt)
         else fmt)
      in fmt1\<lparr>channels := nChannels format,
              sample_rate := nSamplesPerSec format,
              bits_per_sample := wBitsPerSample format\<rparr>)"

text \<open>
  The three tags of the spec's data model, read off the stored number: 1 is PCM, 3 is
  IEEE_FLOAT, anything else (0 in a message whose tag was never set) is Unknown.
\<close>

datatype canonical_tag = PCM | IEEE_FLOAT | Unknown

definition canonical :: "16 word \<Rightarrow> canonical_tag" where
  "canonical t =
     (if t = WAVE_FORMAT_PCM then PCM
      else if t = WAVE_FORMAT_IEEE_FLOAT then IEEE_FLOAT
      else Unknown)"

section \<open>do_loopback_recording\<close>

text \<open>
  The object's two members the function uses: the format message it fills in and the
  stop flag \<open>_stoppped\<close> that another thread writes.
\<close>

record audio_manager =
  m_format :: AudioFormat
  m_stoppped :: bool

text \<open>
  What the subsystem answers during one pass of the loop body. \<open>stop_write\<close> is a store
  to \<open>_stoppped\<close> by the other thread that lands after the previous evaluation of the
  loop condition (for the first pass: after the call began) and before this one. The
  ticks of a run are given as a finite list; a loop that wants a further tick when the
  list is used up ends as \<open>StillRunning\<close>.

  The interval of the timer (the device period in milliseconds) and the frame counter
  kept under \<open>DEBUG\<close> have no effect on the calls made and are left out.
\<close>

record tick =
  stop_write :: "bool option"
  timer_ec :: bool
  hr_GetNextPacketSize :: hresult
  next_packet_size :: "32 word"
  hr_GetBuffer :: hresult
  numFramesAvailable :: "32 word"
  hr_ReleaseBuffer :: hresult

record capture_env =
  hr_CoCreateInstance :: hresult
  hr_GetDevice :: hresult
  hr_OpenPropertyStore :: hresult
  hr_GetValue :: hresult
  hr_Activate :: hresult
  hr_GetMixFormat :: hresult
  mix_format :: WAVEFORMATEX
  hr_GetDevicePeriod :: hresult
  hr_Initialize_loopback :: hresult
  hr_Initialize_eventcallback :: hresult
  hr_GetBufferSize :: hresult
  hr_GetService :: hresult
  hr_Start :: hresult
  ticks :: "tick list"
  hr_Stop :: hresult

text \<open>
  \<open>int count = numFramesAvailable * bytes_per_frame\<close>: the int is converted to
  unsigned, the product is taken modulo \<open>2 ^ 32\<close> and read back as an int.
\<close>

definition byte_count :: "32 word \<Rightarrow> 16 word \<Rightarrow> int" where
  "byte_count frames block_align = sint (frames * (ucast block_align :: 32 word))"

datatype body_exit = ToCondition | Break

text \<open>
  One pass of the body of the do-while loop (lines 154 to 187). \<open>continue\<close> and falling
  off the end of the body both go to the loop condition; \<open>break\<close> leaves the loop.
\<close>

definition tick_body :: "16 word \<Rightarrow> tick \<Rightarrow> body_exit run" where
  "tick_body block_align t =
     (if timer_ec t then ([TimerWait True], Returned Break)
      else
        andThen ([TimerWait False], Returned ()) (\<lambda>_.
        andThen (os GetNextPacketSize (hr_GetNextPacketSize t)) (\<lambda>_.
        andThen (exit_on_failed (hr_GetNextPacketSize t) ''pCaptureClient->GetNextPacketSize'' '''') (\<lambda>_.
        if next_packet_size t = 0 then ([], Returned ToCondition)
        else
          andThen (os GetBuffer (hr_GetBuffer t)) (\<lambda>_.
          andThen (exit_on_failed (hr_GetBuffer t) ''pCaptureClient->GetBuffer'' '''') (\<lambda>_.
          andThen ([Broadcast (byte_count (numFramesAvailable t) block_align) block_align], Returned ()) (\<lambda>_.
          andThen (os (ReleaseBuffer (numFramesAvailable t)) (hr_ReleaseBuffer t)) (\<lambda>_.
          andThen (exit_on_failed (hr_ReleaseBuffer t) ''pCaptureClient->ReleaseBuffer'' '''') (\<lambda>_.
          ([], Returned ToCondition))))))))))"

definition flag_after :: "bool \<Rightarrow> tick \<Rightarrow> bool" where
  "flag_after stoppped t = (case stop_write t of None \<Rightarrow> stoppped | Some b \<Rightarrow> b)"

text \<open>
  The loop \<open>do { ... } while (!_stoppped)\<close>: the body runs, then the flag is read.
  The result is the value of the flag when the loop is left.
\<close>

fun capture_loop :: "16 word \<Rightarrow> bool \<Rightarrow> tick list \<Rightarrow> bool run" where
  "capture_loop block_align stoppped [] = ([], StillRunning)"
| "capture_loop block_align stoppped (t # ts) =
     andThen (tick_body block_align t) (\<lambda>x.
       case x of
         Break \<Rightarrow> ([], Returned (flag_after stoppped t))
       | ToCondition \<Rightarrow>
           (if \<not> flag_after stoppped t then capture_loop block_align (flag_after stoppped t) ts
            else ([], Returned (flag_after stoppped t))))"

text \<open>Lines 119 to 127: the loopback initialization and its fallback.\<close>

definition initialize_stream :: "WAVEFORMATEX \<Rightarrow> hresult \<Rightarrow> hresult \<Rightarrow> unit run" where
  "initialize_stream format hr_loopback hr_eventcallback =
     andThen (os (Initialize AUDCLNT_STREAMFLAGS_LOOPBACK (5 * 10000000) format) hr_loopback) (\<lambda>_.
       if FAILED hr_loopback then
         andThen (say (Warn ''Loopback initialization failed, trying with EVENTCALLBACK flag'')) (\<lambda>_.
         andThen (os (Initialize AUDCLNT_STREAMFLAGS_EVENTCALLBACK (5 * 10000000) format) hr_eventcallback) (\<lambda>_.
         exit_on_failed hr_eventcallback ''Failed to initialize audio client for loopback'' ''''))
       else ([], Returned ()))"

text \<open>Lines 99 to 105: an extensible format with the float sub-format is retagged.\<close>

definition retag :: "WAVEFORMATEX \<Rightarrow> WAVEFORMATEX" where
  "retag format =
     (if wFormatTag format = WAVE_FORMAT_EXTENSIBLE
         \<and> SubFormat format = KSDATAFORMAT_SUBTYPE_IEEE_FLOAT
      then format\<lparr>wFormatTag := WAVE_FORMAT_IEEE_FLOAT\<rparr>
      else format)"

text \<open>Lines 151 to 192: the loop, then \<open>pAudioClient->Stop()\<close>, whose result is dropped.\<close>

definition capture_phase :: "16 word \<Rightarrow> bool \<Rightarrow> tick list \<Rightarrow> hresult \<Rightarrow> bool run" where
  "capture_phase block_align stoppped ts hr_stop =
     andThen (capture_loop block_align stoppped ts) (\<lambda>s.
     andThen (os Stop hr_stop) (\<lambda>_. ([], Returned s)))"

definition do_loopback_recording :: "audio_manager \<Rightarrow> string \<Rightarrow> capture_env \<Rightarrow> audio_manager run" where
  "do_loopback_recording m endpoint_id env =
     andThen (checked
       [(CoCreateInstance, hr_CoCreateInstance env, ''Failed to create IMMDeviceEnumerator''),
        (GetDevice endpoint_id, hr_GetDevice env, ''Failed to get audio endpoint device''),
        (OpenPropertyStore, hr_OpenPropertyStore env, ''Failed to open property store''),
        (GetValue, hr_GetValue env, ''Failed to get device friendly name''),
        (Activate, hr_Activate env, ''Failed to activate IAudioClient''),
        (GetMixFormat, hr_GetMixFormat env, ''Failed to get mix format'')]) (\<lambda>_.
     let pCaptureFormat = retag (mix_format env);
         fmt = set_format (m_format m) pCaptureFormat
     in
     andThen (checked [(GetDevicePeriod, hr_GetDevicePeriod env, ''Failed to get device period'')]) (\<lambda>_.
     andThen (initialize_stream pCaptureFormat (hr_Initialize_loopback env) (hr_Initialize_eventcallback env)) (\<lambda>_.
     andThen (checked
       [(GetBufferSize, hr_GetBufferSize env, ''Failed to get buffer size''),
        (GetService, hr_GetService env, ''Failed to get IAudioCaptureClient''),
        (Start, hr_Start env, ''Failed to start audio client'')]) (\<lambda>_.
     andThen (capture_phase (nBlockAlign pCaptureFormat) (m_stoppped m) (ticks env) (hr_Stop env)) (\<lambda>s.
     ([], Returned (m\<lparr>m_format := fmt, m_stoppped := s\<rparr>)))))))"

section \<open>get_default_endpoint and get_endpoint_list\<close>

text \<open>
  The strings are the identifiers and names after \<open>wchars_to_mbs\<close>. An empty string is
  what \<open>return {}\<close> gives.
\<close>

record default_env =
  d_hr_CoCreateInstance :: hresult
  d_hr_GetDefaultAudioEndpoint :: hresult
  d_hr_GetId :: hresult
  d_pwszID :: string

definition get_default_endpoint :: "default_env \<Rightarrow> string run" where
  "get_default_endpoint e =
     andThen (checked [(CoCreateInstance, d_hr_CoCreateInstance e, '''')]) (\<lambda>_.
     andThen (os (GetDefaultAudioEndpoint eRender eConsole) (d_hr_GetDefaultAudioEndpoint e)) (\<lambda>_.
     if d_hr_GetDefaultAudioEndpoint e = HRESULT_FROM_WIN32 ERROR_NOT_FOUND then ([], Returned [])
     else
       andThen (exit_on_failed (d_hr_GetDefaultAudioEndpoint e) '''' '''') (\<lambda>_.
       andThen (checked [(GetId, d_hr_GetId e, '''')]) (\<lambda>_.
       ([], Returned (d_pwszID e))))))"

type_synonym endpoint_list_t = "(string \<times> string) list"

record device =
  v_hr_Item :: hresult
  v_hr_GetId :: hresult
  v_pwszID :: string
  v_hr_OpenPropertyStore :: hresult
  v_hr_GetValue :: hresult
  v_pwszVal :: string

text \<open>
  The inner loop \<open>for (UINT i = 0; i < count; ++i)\<close> over one collection, \<open>count\<close>
  being the number of its devices; \<open>default_index = i\<close> converts the counter to int.
\<close>

fun device_loop ::
  "data_flow \<Rightarrow> string \<Rightarrow> 32 word \<Rightarrow> device list \<Rightarrow> int \<times> endpoint_list_t
     \<Rightarrow> (int \<times> endpoint_list_t) run" where
  "device_loop data_flow default_id i [] acc = ([], Returned acc)"
| "device_loop data_flow default_id i (d # ds) (default_index, endpoint_list) =
     andThen (checked
       [(Item i, v_hr_Item d, ''''),
        (GetId, v_hr_GetId d, ''''),
        (OpenPropertyStore, v_hr_OpenPropertyStore d, ''''),
        (GetValue, v_hr_GetValue d, '''')]) (\<lambda>_.
     let endpoint_id = v_pwszID d;
         endpoint_name = v_pwszVal d;
         label = (if data_flow = eRender then ''[Playback]'' else ''[Recording]'')
     in device_loop data_flow default_id (i + 1) ds
          (if endpoint_id = default_id then sint i else default_index,
           endpoint_list @ [(endpoint_id, label @ '' '' @ endpoint_name)]))"

record flow_env =
  f_hr_CoCreateInstance :: hresult
  f_hr_EnumAudioEndpoints :: hresult
  f_hr_GetCount :: hresult
  f_devices :: "device list"
  f_default :: default_env

text \<open>
  The outer loop over \<open>data_flows\<close>. Each pass sets \<open>default_index\<close> back to -1 and asks
  for the default endpoint again before it walks its collection.
\<close>

fun flow_loop ::
  "(data_flow \<times> flow_env) list \<Rightarrow> int \<times> endpoint_list_t \<Rightarrow> (int \<times> endpoint_list_t) run" where
  "flow_loop [] acc = ([], Returned acc)"
| "flow_loop ((data_flow, env) # rest) (default_index, endpoint_list) =
     andThen (checked
       [(CoCreateInstance, f_hr_CoCreateInstance env, ''''),
        (EnumAudioEndpoints data_flow, f_hr_EnumAudioEndpoints env, ''''),
        (GetCount, f_hr_GetCount env, '''')]) (\<lambda>_.
     andThen (get_default_endpoint (f_default env)) (\<lambda>default_id.
     andThen (device_loop data_flow default_id 0 (f_devices env) (- 1, endpoint_list))
       (flow_loop rest)))"

record list_env =
  l_default :: default_env
  l_render :: flow_env
  l_capture :: flow_env

definition get_endpoint_list :: "list_env \<Rightarrow> endpoint_list_t \<Rightarrow> (int \<times> endpoint_list_t) run" where
  "get_endpoint_list env endpoint_list =
     andThen (get_default_endpoint (l_default env)) (\<lambda>default_id.
     flow_loop [(eRender, l_render env), (eCapture, l_capture env)] (- 1, endpoint_list))"

section \<open>Reading a run\<close>

text \<open>The byte lengths handed to the sink, in order.\<close>

fun deliveries :: "event list \<Rightarrow> int list" where
  "deliveries [] = []"
| "deliveries (Broadcast count block_align # es) = count # deliveries es"
| "deliveries (e # es) = deliveries es"

text \<open>
  Walking a run with the knowledge of whether a buffer is held: a successful \<open>GetBuffer\<close>
  must find none held and leaves one held; a \<open>ReleaseBuffer\<close> call must find one held,
  and gives it back only if the call succeeds. The result is \<open>None\<close> when that is
  broken, and otherwise whether a buffer is held at the end.
\<close>

fun buffer_state :: "bool \<Rightarrow> event list \<Rightarrow> bool option" where
  "buffer_state held [] = Some held"
| "buffer_state held (Call GetBuffer hr # es) =
     (if held then None else buffer_state (\<not> FAILED hr) es)"
| "buffer_state held (Call (ReleaseBuffer n) hr # es) =
     (if held then buffer_state (FAILED hr) es else None)"
| "buffer_state held (e # es) = buffer_state held es"


text \<open>
  A run accounts for its buffers when the calls come in that order and a buffer is
  still held at the end only in a run that ended the process.
\<close>

definition accounted :: "'a run \<Rightarrow> bool" where
  "accounted r =
     (case buffer_state False (fst r) of
        None \<Rightarrow> False
      | Some held \<Rightarrow> (if held then snd r = Exited (- 1) else True))"


text \<open>The stream initializations attempted in a run: flag and format of each.\<close>

fun initialize_calls :: "event list \<Rightarrow> (stream_flag \<times> WAVEFORMATEX) list" where
  "initialize_calls [] = []"
| "initialize_calls (Call (Initialize flag duration format) hr # es) =
     (flag, format) # initialize_calls es"
| "initialize_calls (e # es) = initialize_calls es"

text \<open>The session is running once \<open>Start\<close> has succeeded.\<close>

fun running :: "event list \<Rightarrow> bool" where
  "running [] = False"
| "running (Call Start hr # es) = (\<not> FAILED hr \<or> running es)"
| "running (e # es) = running es"

text \<open>
  A tick in which the timer wait and every call of the body succeed, and the events
  such a tick consists of.
\<close>

definition tick_ok :: "tick \<Rightarrow> bool" where
  "tick_ok t =
     (\<not> timer_ec t \<and> \<not> FAILED (hr_GetNextPacketSize t)
      \<and> (if next_packet_size t = 0 then True
         else \<not> FAILED (hr_GetBuffer t) \<and> \<not> FAILED (hr_ReleaseBuffer t)))"

definition full_tick :: "16 word \<Rightarrow> tick \<Rightarrow> event list" where
  "full_tick block_align t =
     [TimerWait False, Call GetNextPacketSize (hr_GetNextPacketSize t)]
     @ (if next_packet_size t = 0 then []
        else [Call GetBuffer (hr_GetBuffer t),
              Broadcast (byte_count (numFramesAvailable t) block_align) block_align,
              Call (ReleaseBuffer (numFramesAvailable t)) (hr_ReleaseBuffer t)])"

text \<open>A tick that succeeds and during which the flag is not set.\<close>

definition quiet :: "tick \<Rightarrow> bool" where
  "quiet t = (tick_ok t \<and> stop_write t \<noteq> Some True)"

text \<open>
  The calls up to and including \<open>GetDevicePeriod\<close> succeed; the whole setup succeeds,
  through one of the two initializations; and the events of a successful setup.
\<close>

definition opened :: "capture_env \<Rightarrow> bool" where
  "opened env =
     (\<not> FAILED (hr_CoCreateInstance env) \<and> \<not> FAILED (hr_GetDevice env)
      \<and> \<not> FAILED (hr_OpenPropertyStore env) \<and> \<not> FAILED (hr_GetValue env)
      \<and> \<not> FAILED (hr_Activate env) \<and> \<not> FAILED (hr_GetMixFormat env)
      \<and> \<not> FAILED (hr_GetDevicePeriod env))"

definition initialized :: "capture_env \<Rightarrow> bool" where
  "initialized env =
     (if FAILED (hr_Initialize_loopback env) then \<not> FAILED (hr_Initialize_eventcallback env)
      else True)"

definition started :: "capture_env \<Rightarrow> bool" where
  "started env =
     (\<not> FAILED (hr_GetBufferSize env) \<and> \<not> FAILED (hr_GetService env)
      \<and> \<not> FAILED (hr_Start env))"

definition open_calls :: "string \<Rightarrow> capture_env \<Rightarrow> event list" where
  "open_calls endpoint_id env =
     [Call CoCreateInstance (hr_CoCreateInstance env),
      Call (GetDevice endpoint_id) (hr_GetDevice env),
      Call OpenPropertyStore (hr_OpenPropertyStore env),
      Call GetValue (hr_GetValue env),
      Call Activate (hr_Activate env),
      Call GetMixFormat (hr_GetMixFormat env),
      Call GetDevicePeriod (hr_GetDevicePeriod env)]"

definition setup_calls :: "string \<Rightarrow> capture_env \<Rightarrow> event list" where
  "setup_calls endpoint_id env =
     open_calls endpoint_id env
     @ fst (initialize_stream (retag (mix_format env))
              (hr_Initialize_loopback env) (hr_Initialize_eventcallback env))
     @ [Call GetBufferSize (hr_GetBufferSize env),
        Call GetService (hr_GetService env),
        Call Start (hr_Start env)]"

text \<open>What the caller of a void function gets.\<close>

fun caller_sees :: "'a outcome \<Rightarrow> unit outcome" where
  "caller_sees (Returned a) = Returned ()"
| "caller_sees (Exited n) = Exited n"
| "caller_sees StillRunning = StillRunning"

text \<open>
  In the enumeration functions every failed call ends the process, except the
  not-found answer to the default-endpoint query. \<open>after_fatal\<close> finds the first such
  call in a run and gives its HRESULT and the events that follow it.
\<close>

definition fatal :: "os_call \<Rightarrow> hresult \<Rightarrow> bool" where
  "fatal c hr =
     (if c = GetDefaultAudioEndpoint eRender eConsole \<and> hr = HRESULT_FROM_WIN32 ERROR_NOT_FOUND then False
      else FAILED hr)"

fun after_fatal :: "event list \<Rightarrow> (hresult \<times> event list) option" where
  "after_fatal [] = None"
| "after_fatal (Call c hr # es) = (if fatal c hr then Some (hr, es) else after_fatal es)"
| "after_fatal (e # es) = after_fatal es"

text \<open>The default-endpoint queries put in a run: direction and role of each.\<close>

fun default_queries :: "event list \<Rightarrow> (data_flow \<times> role) list" where
  "default_queries [] = []"
| "default_queries (Call (GetDefaultAudioEndpoint data_flow r) hr # es) =
     (data_flow, r) # default_queries es"
| "default_queries (e # es) = default_queries es"

text \<open>The entry \<open>get_endpoint_list\<close> appends for a device.\<close>

definition endpoint_entry :: "data_flow \<Rightarrow> device \<Rightarrow> string \<times> string" where
  "endpoint_entry data_flow d =
     (v_pwszID d,
      (if data_flow = eRender then ''[Playback]'' else ''[Recording]'') @ '' '' @ v_pwszVal d)"

text \<open>
  A run of an enumeration function ends in one of two ways: with no such failed call in
  it and a value returned, or right after the error line for the first such call, by
  \<open>exit\<close> with status -1.
\<close>

definition exits_on_failure :: "'a run \<Rightarrow> bool" where
  "exits_on_failure r =
     (case after_fatal (fst r) of
        None \<Rightarrow> (case snd r of Returned a \<Rightarrow> True | Exited n \<Rightarrow> False | StillRunning \<Rightarrow> False)
      | Some (hr, rest) \<Rightarrow> rest = [Log (Error [] [] (HRESULT_CODE hr))] \<and> snd r = Exited (- 1))"

section \<open>Sample inputs\<close>

text \<open>
  A device whose mix format is 32-bit float stereo at 48 kHz in an extensible wrapper;
  a tick in which \<open>n\<close> frames are pending and every call succeeds; an environment in
  which every call succeeds except possibly the two initializations, whose answers are
  given; and the object before any capture.
\<close>

definition float_stereo :: WAVEFORMATEX where
  "float_stereo =
     \<lparr>wFormatTag = 0xFFFE, nChannels = 2, nSamplesPerSec = 48000, nAvgBytesPerSec = 384000,
      nBlockAlign = 8, wBitsPerSample = 32, cbSize = 22,
      SubFormat = (0x00000003, 0x0000, 0x0010, [0x80, 0x00, 0x00, 0xaa, 0x00, 0x38, 0x9b, 0x71])\<rparr>"

definition packet :: "32 word \<Rightarrow> tick" where
  "packet n =
     \<lparr>stop_write = None, timer_ec = False, hr_GetNextPacketSize = 0, next_packet_size = n,
      hr_GetBuffer = 0, numFramesAvailable = n, hr_ReleaseBuffer = 0\<rparr>"

definition sample_env :: "hresult \<Rightarrow> hresult \<Rightarrow> tick list \<Rightarrow> capture_env" where
  "sample_env hr_loopback hr_eventcallback ts =
     \<lparr>hr_CoCreateInstance = 0, hr_GetDevice = 0, hr_OpenPropertyStore = 0, hr_GetValue = 0,
      hr_Activate = 0, hr_GetMixFormat = 0, mix_format = float_stereo, hr_GetDevicePeriod = 0,
      hr_Initialize_loopback = hr_loopback, hr_Initialize_eventcallback = hr_eventcallback,
      hr_GetBufferSize = 0, hr_GetService = 0, hr_Start = 0, ticks = ts, hr_Stop = 0\<rparr>"

definition fresh_manager :: "bool \<Rightarrow> audio_manager" where
  "fresh_manager stoppped =
     \<lparr>m_format = \<lparr>format_tag = 0, channels = 0, sample_rate = 0, bits_per_sample = 0\<rparr>,
      m_stoppped = stoppped\<rparr>"

text \<open>
  For the enumeration: a device all of whose queries succeed, a default-endpoint query
  that finds the given identifier, one that finds no device, and a pass over a
  collection in which the calls on the collection succeed.
\<close>

definition sample_device :: "string \<Rightarrow> string \<Rightarrow> device" where
  "sample_device endpoint_id name =
     \<lparr>v_hr_Item = 0, v_hr_GetId = 0, v_pwszID = endpoint_id, v_hr_OpenPropertyStore = 0,
      v_hr_GetValue = 0, v_pwszVal = name\<rparr>"

definition default_is :: "string \<Rightarrow> default_env" where
  "default_is endpoint_id =
     \<lparr>d_hr_CoCreateInstance = 0, d_hr_GetDefaultAudioEndpoint = 0, d_hr_GetId = 0,
      d_pwszID = endpoint_id\<rparr>"

definition no_default :: default_env where
  "no_default =
     \<lparr>d_hr_CoCreateInstance = 0, d_hr_GetDefaultAudioEndpoint = 0x80070490, d_hr_GetId = 0,
      d_pwszID = []\<rparr>"

definition sample_flow :: "hresult \<Rightarrow> device list \<Rightarrow> default_env \<Rightarrow> flow_env" where
  "sample_flow hr_enum ds d =
     \<lparr>f_hr_CoCreateInstance = 0, f_hr_EnumAudioEndpoints = hr_enum, f_hr_GetCount = 0,
      f_devices = ds, f_default = d\<rparr>"

section \<open>Basic facts about runs\<close>

lemma andThen_Returned [simp]: "andThen (evs, Returned a) f = (evs @ fst (f a), snd (f a))"
  by (simp add: andThen_def split: prod.splits)

lemma andThen_Exited [simp]: "andThen (evs, Exited n) f = (evs, Exited n)"
  by (simp add: andThen_def)

lemma andThen_StillRunning [simp]: "andThen (evs, StillRunning) f = (evs, StillRunning)"
  by (simp add: andThen_def)

lemma exit_on_failed_ok [simp]:
  "\<not> FAILED hr \<Longrightarrow> exit_on_failed hr message func = ([], Returned ())"
  by (simp add: exit_on_failed_def)

lemma exit_on_failed_failed [simp]:
  "FAILED hr \<Longrightarrow>
     exit_on_failed hr message func = ([Log (Error func message (HRESULT_CODE hr))], Exited (- 1))"
  by (simp add: exit_on_failed_def)

lemma os_run [simp]: "os c hr = ([Call c hr], Returned ())"
  by (simp add: os_def)

lemma say_run [simp]: "say l = ([Log l], Returned ())"
  by (simp add: say_def)

lemma checked_step_ok:
  "\<not> FAILED hr \<Longrightarrow>
     checked ((c, hr, message) # rest) = (Call c hr # fst (checked rest), snd (checked rest))"
  by simp

lemma checked_step_failed:
  "FAILED hr \<Longrightarrow>
     checked ((c, hr, message) # rest) =
       ([Call c hr, Log (Error [] message (HRESULT_CODE hr))], Exited (- 1))"
  by simp

declare checked.simps(2) [simp del]
declare checked_step_ok [simp] checked_step_failed [simp]

lemma not_found_value: "HRESULT_FROM_WIN32 ERROR_NOT_FOUND = 0x80070490"
  by (simp add: HRESULT_FROM_WIN32_def ERROR_NOT_FOUND_def)

lemma not_found_FAILED: "FAILED (HRESULT_FROM_WIN32 ERROR_NOT_FOUND)"
  by (simp add: not_found_value FAILED_def)

lemma ok_is_not_not_found: "\<not> FAILED hr \<Longrightarrow> hr \<noteq> HRESULT_FROM_WIN32 ERROR_NOT_FOUND"
  using not_found_FAILED by auto

section \<open>Facts about the capture loop\<close>

lemma tick_body_ok: "tick_ok t \<Longrightarrow> tick_body ba t = (full_tick ba t, Returned ToCondition)"
  by (simp add: tick_ok_def tick_body_def full_tick_def split: if_splits)

lemma tick_body_timer: "timer_ec t \<Longrightarrow> tick_body ba t = ([TimerWait True], Returned Break)"
  by (simp add: tick_body_def)

lemma capture_loop_continue:
  "tick_ok t \<Longrightarrow> \<not> flag_after st t \<Longrightarrow>
     capture_loop ba st (t # ts) =
       (full_tick ba t @ fst (capture_loop ba False ts), snd (capture_loop ba False ts))"
  by (simp add: tick_body_ok)

lemma capture_loop_stop:
  "tick_ok t \<Longrightarrow> flag_after st t \<Longrightarrow>
     capture_loop ba st (t # ts) = (full_tick ba t, Returned True)"
  by (simp add: tick_body_ok)

lemma capture_loop_break:
  "timer_ec t \<Longrightarrow> capture_loop ba st (t # ts) = ([TimerWait True], Returned (flag_after st t))"
  by (simp add: tick_body_timer)

lemma quiet_flag: "quiet t \<Longrightarrow> \<not> flag_after False t"
  by (auto simp: quiet_def flag_after_def split: option.splits)

lemma capture_loop_quiet:
  "list_all quiet pre \<Longrightarrow>
     capture_loop ba False (pre @ rest) =
       (concat (map (full_tick ba) pre) @ fst (capture_loop ba False rest),
        snd (capture_loop ba False rest))"
proof (induction pre)
  case Nil
  show ?case by simp
next
  case (Cons t pre)
  then have "tick_ok t" and "\<not> flag_after False t" and "list_all quiet pre"
    by (simp_all add: quiet_flag) (simp add: quiet_def)
  then show ?case
    using Cons.IH by (simp add: capture_loop_continue del: capture_loop.simps)
qed

lemma deliveries_append: "deliveries (xs @ ys) = deliveries xs @ deliveries ys"
  by (induction xs rule: deliveries.induct) simp_all

lemma deliveries_full_tick:
  "deliveries (full_tick ba t) =
     (if next_packet_size t = 0 then [] else [byte_count (numFramesAvailable t) ba])"
  by (simp add: full_tick_def)

lemma unat_ucast_16_32: "unat (ucast (ba :: 16 word) :: 32 word) = unat ba"
proof -
  have "unat ba < 2 ^ 16"
    using unsigned_less [of ba, where ?'a = nat] by simp
  then have "unat ba < 2 ^ 32"
    by simp
  then show ?thesis
    by (simp add: unsigned_ucast_eq take_bit_nat_eq_self_iff)
qed

lemma sint_small:
  fixes w :: "32 word"
  assumes "unat w < 2 ^ 31"
  shows "sint w = int (unat w)"
proof -
  have u: "uint w = int (unat w)"
    by (rule uint_nat)
  have "int (unat w) < int (2 ^ 31)"
    using assms by (simp only: of_nat_less_iff)
  then have "uint w < 2 ^ 31"
    by (simp only: u) simp
  moreover have "- (2 ^ 31) \<le> uint w"
    by (rule order_trans [of _ 0]) simp_all
  ultimately have "signed_take_bit 31 (uint w) = uint w"
    by (rule signed_take_bit_int_eq_self [rotated])
  then have "sint w = uint w"
    by (simp add: sint_uint)
  then show ?thesis
    by (simp only: u)
qed

lemma byte_count_exact:
  assumes "unat frames * unat ba < 2 ^ 31"
  shows "byte_count frames ba = int (unat frames * unat ba)"
proof -
  have lt: "unat frames * unat (ucast ba :: 32 word) < 2 ^ 31"
    using assms by (simp add: unat_ucast_16_32)
  then have "unat frames * unat (ucast ba :: 32 word) < 2 ^ LENGTH(32)"
    by simp
  then have eq: "unat (frames * (ucast ba :: 32 word)) = unat frames * unat (ucast ba :: 32 word)"
    by (simp only: unat_mult_lem)
  with lt have "unat (frames * (ucast ba :: 32 word)) < 2 ^ 31"
    by simp
  then have "sint (frames * (ucast ba :: 32 word)) = int (unat (frames * (ucast ba :: 32 word)))"
    by (rule sint_small)
  then show ?thesis
    by (simp only: byte_count_def eq unat_ucast_16_32)
qed

lemma byte_count_wrap:
  "byte_count frames ba = signed_take_bit 31 (int (unat frames * unat ba))"
proof -
  have "uint (frames * (ucast ba :: 32 word)) = take_bit 32 (uint frames * uint (ucast ba :: 32 word))"
    by (simp add: uint_word_ariths take_bit_eq_mod)
  moreover have "uint (ucast ba :: 32 word) = int (unat ba)"
    using unat_ucast_16_32 [of ba] by (simp only: uint_nat)
  moreover have "uint frames = int (unat frames)"
    by (rule uint_nat)
  ultimately have "uint (frames * (ucast ba :: 32 word)) = take_bit 32 (int (unat frames * unat ba))"
    by (simp only: of_nat_mult)
  then have "sint (frames * (ucast ba :: 32 word))
      = signed_take_bit 31 (take_bit 32 (int (unat frames * unat ba)))"
    by (simp only: sint_uint) simp
  then show ?thesis
    by (simp add: byte_count_def signed_take_bit_take_bit)
qed

lemma capture_loop_quiet_then_ok:
  assumes "list_all quiet pre" "tick_ok t"
  shows "capture_loop ba False (pre @ t # post) =
           (concat (map (full_tick ba) (pre @ [t]))
              @ (if flag_after False t then [] else fst (capture_loop ba False post)),
            if flag_after False t then Returned True else snd (capture_loop ba False post))"
  using assms
  by (simp add: capture_loop_quiet capture_loop_stop capture_loop_continue del: capture_loop.simps)

lemma deliveries_ticks:
  "deliveries (concat (map (full_tick ba) ts)) =
     map (\<lambda>u. byte_count (numFramesAvailable u) ba) (filter (\<lambda>u. next_packet_size u \<noteq> 0) ts)"
  by (induction ts) (simp_all add: deliveries_append deliveries_full_tick)

section \<open>Facts about do_loopback_recording\<close>

lemma andThen_cases:
  "andThen m f =
     (case snd m of Returned a \<Rightarrow> (fst m @ fst (f a), snd (f a))
      | Exited n \<Rightarrow> (fst m, Exited n)
      | StillRunning \<Rightarrow> (fst m, StillRunning))"
  by (cases m) (simp add: andThen_def split: outcome.splits prod.splits)

lemma initialize_stream_ok:
  "(if FAILED hr1 then \<not> FAILED hr2 else True) \<Longrightarrow> snd (initialize_stream f hr1 hr2) = Returned ()"
  by (simp add: initialize_stream_def)

lemma capture_phase_run:
  "capture_phase ba st ts hr =
     (case snd (capture_loop ba st ts) of
        Returned s \<Rightarrow> (fst (capture_loop ba st ts) @ [Call Stop hr], Returned s)
      | Exited n \<Rightarrow> (fst (capture_loop ba st ts), Exited n)
      | StillRunning \<Rightarrow> (fst (capture_loop ba st ts), StillRunning))"
  by (simp add: capture_phase_def andThen_cases split: outcome.splits)

lemma retag_block_align: "nBlockAlign (retag f) = nBlockAlign f"
  by (simp add: retag_def)

lemma do_loopback_recording_started:
  assumes "opened env" "initialized env" "started env"
  shows "do_loopback_recording m endpoint_id env =
     (setup_calls endpoint_id env
        @ fst (capture_phase (nBlockAlign (mix_format env)) (m_stoppped m) (ticks env) (hr_Stop env)),
      case snd (capture_phase (nBlockAlign (mix_format env)) (m_stoppped m) (ticks env) (hr_Stop env)) of
        Returned s \<Rightarrow>
          Returned (m\<lparr>m_format := set_format (m_format m) (retag (mix_format env)),
                      m_stoppped := s\<rparr>)
      | Exited n \<Rightarrow> Exited n
      | StillRunning \<Rightarrow> StillRunning)"
proof -
  have i: "snd (initialize_stream (retag (mix_format env))
              (hr_Initialize_loopback env) (hr_Initialize_eventcallback env)) = Returned ()"
    using assms(2) by (simp add: initialize_stream_ok initialized_def)
  show ?thesis
    using assms(1,3) i
    by (simp add: do_loopback_recording_def opened_def started_def setup_calls_def open_calls_def
        andThen_cases [of "initialize_stream _ _ _"] andThen_cases [of "capture_phase _ _ _ _"]
        retag_block_align Let_def split: outcome.splits)
qed



lemma accounted_pure [simp]: "accounted ([], x)"
  by (simp add: accounted_def)










lemma capture_loop_quiet_then_stop:
  assumes "list_all quiet pre" "stop_write t = Some True" "tick_ok t \<or> timer_ec t"
  shows "capture_loop ba False (pre @ t # post) =
           (concat (map (full_tick ba) pre) @ fst (tick_body ba t), Returned True)"
proof -
  have f: "flag_after False t"
    using assms(2) by (simp add: flag_after_def)
  have "capture_loop ba False (t # post) = (fst (tick_body ba t), Returned True)"
  proof (cases "timer_ec t")
    case True
    then show ?thesis using f by (simp add: capture_loop_break tick_body_timer del: capture_loop.simps)
  next
    case False
    with assms(3) have "tick_ok t" by simp
    then show ?thesis using f by (simp add: capture_loop_stop tick_body_ok del: capture_loop.simps)
  qed
  then show ?thesis
    using assms(1) by (simp add: capture_loop_quiet del: capture_loop.simps)
qed

lemma capture_loop_quiet_then_break:
  assumes "list_all quiet pre" "timer_ec t"
  shows "capture_loop ba False (pre @ t # post) =
           (concat (map (full_tick ba) pre) @ [TimerWait True], Returned (flag_after False t))"
  using assms by (simp add: capture_loop_quiet capture_loop_break del: capture_loop.simps)

lemma fst_andThen_prefix: "\<exists>rest. fst (andThen m f) = fst m @ rest"
  by (simp add: andThen_cases split: outcome.splits)

lemma initialize_calls_append:
  "initialize_calls (xs @ ys) = initialize_calls xs @ initialize_calls ys"
  by (induction xs rule: initialize_calls.induct) simp_all

lemma initialize_calls_andThen:
  "initialize_calls (fst (andThen m f)) =
     initialize_calls (fst m)
     @ (case snd m of Returned a \<Rightarrow> initialize_calls (fst (f a)) | Exited n \<Rightarrow> []
        | StillRunning \<Rightarrow> [])"
  by (simp add: andThen_cases initialize_calls_append split: outcome.splits)

lemma initialize_calls_checked:
  "list_all (\<lambda>(c, hr, message). case c of Initialize flag d f \<Rightarrow> False | _ \<Rightarrow> True) cs \<Longrightarrow>
     initialize_calls (fst (checked cs)) = []"
proof (induction cs)
  case Nil
  show ?case by simp
next
  case (Cons x cs)
  obtain c hr message where x: "x = (c, hr, message)"
    by (cases x)
  with Cons have c: "case c of Initialize flag d f \<Rightarrow> False | _ \<Rightarrow> True"
    and rest: "initialize_calls (fst (checked cs)) = []"
    by simp_all
  from c have step: "\<And>es. initialize_calls (Call c hr # es) = initialize_calls es"
    by (cases c) auto
  show ?case
    using rest by (cases "FAILED hr") (simp_all add: x step)
qed

lemma initialize_calls_tick_body: "initialize_calls (fst (tick_body ba t)) = []"
  by (cases "FAILED (hr_GetNextPacketSize t)"; cases "FAILED (hr_GetBuffer t)";
      cases "FAILED (hr_ReleaseBuffer t)")
     (simp_all add: tick_body_def)

lemma initialize_calls_capture_loop: "initialize_calls (fst (capture_loop ba st ts)) = []"
  by (induction ts arbitrary: st)
     (simp_all add: initialize_calls_andThen initialize_calls_tick_body
        split: outcome.splits body_exit.splits)

lemma initialize_calls_capture_phase: "initialize_calls (fst (capture_phase ba st ts hr)) = []"
  by (simp add: capture_phase_def initialize_calls_andThen initialize_calls_capture_loop
      split: outcome.splits)

lemma initialize_calls_initialize_stream:
  "initialize_calls (fst (initialize_stream f hr1 hr2)) =
     (if FAILED hr1 then [(AUDCLNT_STREAMFLAGS_LOOPBACK, f), (AUDCLNT_STREAMFLAGS_EVENTCALLBACK, f)]
      else [(AUDCLNT_STREAMFLAGS_LOOPBACK, f)])"
  by (cases "FAILED hr2") (simp_all add: initialize_stream_def)

lemma running_append: "running (xs @ ys) = (running xs \<or> running ys)"
  by (induction xs rule: running.induct) auto

section \<open>Facts about the enumeration\<close>

lemma after_fatal_append:
  "after_fatal (xs @ ys) =
     (case after_fatal xs of None \<Rightarrow> after_fatal ys | Some (hr, rest) \<Rightarrow> Some (hr, rest @ ys))"
  by (induction xs rule: after_fatal.induct) simp_all

lemma exits_andThen:
  assumes "exits_on_failure m" and "\<And>a. exits_on_failure (f a)"
  shows "exits_on_failure (andThen m f)"
proof (cases "snd m")
  case (Returned a)
  with assms(1) have "after_fatal (fst m) = None"
    by (auto simp: exits_on_failure_def split: option.splits)
  with Returned assms(2) [of a] show ?thesis
    by (auto simp: andThen_cases exits_on_failure_def after_fatal_append
        split: option.splits outcome.splits)
next
  case (Exited n)
  with assms(1) show ?thesis
    by (auto simp: andThen_cases exits_on_failure_def split: option.splits)
next
  case StillRunning
  with assms(1) show ?thesis
    by (auto simp: andThen_cases exits_on_failure_def split: option.splits)
qed

lemma exits_pure [simp]: "exits_on_failure ([], Returned a)"
  by (simp add: exits_on_failure_def)

lemma exits_checked:
  "list_all (\<lambda>(c, hr, message). c \<noteq> GetDefaultAudioEndpoint eRender eConsole \<and> message = []) cs \<Longrightarrow>
     exits_on_failure (checked cs)"
proof (induction cs)
  case Nil
  show ?case by simp
next
  case (Cons x cs)
  obtain c hr message where x: "x = (c, hr, message)"
    by (cases x)
  with Cons have c: "c \<noteq> GetDefaultAudioEndpoint eRender eConsole" "message = []"
    and rest: "exits_on_failure (checked cs)"
    by simp_all
  show ?case
  proof (cases "FAILED hr")
    case True
    then show ?thesis using c by (simp add: x exits_on_failure_def fatal_def)
  next
    case False
    then show ?thesis using c rest
      by (auto simp: x exits_on_failure_def fatal_def split: option.splits outcome.splits)
  qed
qed

lemma exits_get_default_endpoint: "exits_on_failure (get_default_endpoint e)"
  by (cases "FAILED (d_hr_CoCreateInstance e)"; cases "FAILED (d_hr_GetDefaultAudioEndpoint e)";
      cases "FAILED (d_hr_GetId e)";
      cases "d_hr_GetDefaultAudioEndpoint e = HRESULT_FROM_WIN32 ERROR_NOT_FOUND")
     (simp_all add: get_default_endpoint_def exits_on_failure_def fatal_def)

lemma exits_device_loop: "exits_on_failure (device_loop data_flow default_id i ds acc)"
proof (induction ds arbitrary: i acc)
  case Nil
  show ?case by simp
next
  case (Cons d ds)
  obtain default_index endpoint_list where acc: "acc = (default_index, endpoint_list)"
    by (cases acc)
  show ?case
    unfolding acc device_loop.simps Let_def
    by (intro exits_andThen exits_checked Cons) simp
qed

lemma exits_flow_loop: "exits_on_failure (flow_loop fs acc)"
proof (induction fs arbitrary: acc)
  case Nil
  show ?case by simp
next
  case (Cons x fs)
  obtain default_index endpoint_list where acc: "acc = (default_index, endpoint_list)"
    by (cases acc)
  obtain data_flow env where x: "x = (data_flow, env)"
    by (cases x)
  show ?case
    unfolding acc x flow_loop.simps
    by (intro exits_andThen exits_checked exits_get_default_endpoint exits_device_loop Cons) simp
qed

lemma exits_get_endpoint_list: "exits_on_failure (get_endpoint_list env endpoint_list)"
  unfolding get_endpoint_list_def
  by (intro exits_andThen exits_get_default_endpoint exits_flow_loop)

lemma andThen_ReturnedD:
  assumes "andThen m f = (evs, Returned b)"
  obtains a evs1 evs2 where "m = (evs1, Returned a)" and "f a = (evs2, Returned b)"
    and "evs = evs1 @ evs2"
  using assms
  by (cases m; cases "snd m") (auto simp: andThen_def split: prod.splits)

lemma default_queries_append:
  "default_queries (xs @ ys) = default_queries xs @ default_queries ys"
  by (induction xs rule: default_queries.induct) simp_all

lemma default_queries_checked:
  "list_all (\<lambda>(c, hr, message). case c of GetDefaultAudioEndpoint f r \<Rightarrow> False | _ \<Rightarrow> True) cs \<Longrightarrow>
     default_queries (fst (checked cs)) = []"
proof (induction cs)
  case Nil
  show ?case by simp
next
  case (Cons x cs)
  obtain c hr message where x: "x = (c, hr, message)"
    by (cases x)
  with Cons have c: "case c of GetDefaultAudioEndpoint f r \<Rightarrow> False | _ \<Rightarrow> True"
    and rest: "default_queries (fst (checked cs)) = []"
    by simp_all
  from c have step: "\<And>es. default_queries (Call c hr # es) = default_queries es"
    by (cases c) auto
  show ?case
    using rest by (cases "FAILED hr") (simp_all add: x step)
qed

lemma default_queries_get_default_endpoint:
  "get_default_endpoint e = (evs, Returned v) \<Longrightarrow> default_queries evs = [(eRender, eConsole)]"
  by (cases "FAILED (d_hr_CoCreateInstance e)"; cases "FAILED (d_hr_GetDefaultAudioEndpoint e)";
      cases "FAILED (d_hr_GetId e)";
      cases "d_hr_GetDefaultAudioEndpoint e = HRESULT_FROM_WIN32 ERROR_NOT_FOUND")
     (auto simp: get_default_endpoint_def)

lemma device_loop_exact:
  "device_loop data_flow default_id i ds (default_index, endpoint_list) = (evs, Returned (idx, l')) \<Longrightarrow>
     l' = endpoint_list @ map (endpoint_entry data_flow) ds
     \<and> default_queries evs = []
     \<and> (((\<forall>d \<in> set ds. v_pwszID d \<noteq> default_id) \<and> idx = default_index)
        \<or> (\<exists>k < length ds. idx = sint (i + word_of_nat k) \<and> v_pwszID (ds ! k) = default_id
              \<and> (\<forall>j < length ds. k < j \<longrightarrow> v_pwszID (ds ! j) \<noteq> default_id)))"
proof (induction ds arbitrary: i default_index endpoint_list evs)
  case Nil
  then show ?case by simp
next
  case (Cons d ds)
  let ?di = "if v_pwszID d = default_id then sint i else default_index"
  let ?l = "endpoint_list @ [endpoint_entry data_flow d]"
  from Cons.prems obtain evs1 evs2 where
    chk: "checked [(Item i, v_hr_Item d, []), (GetId, v_hr_GetId d, []),
            (OpenPropertyStore, v_hr_OpenPropertyStore d, []), (GetValue, v_hr_GetValue d, [])]
          = (evs1, Returned ())"
    and rec: "device_loop data_flow default_id (i + 1) ds (?di, ?l) = (evs2, Returned (idx, l'))"
    and evs: "evs = evs1 @ evs2"
    by (auto simp: Let_def endpoint_entry_def elim!: andThen_ReturnedD)
  have q1: "default_queries evs1 = []"
    using default_queries_checked [of "[(Item i, v_hr_Item d, []), (GetId, v_hr_GetId d, []),
            (OpenPropertyStore, v_hr_OpenPropertyStore d, []), (GetValue, v_hr_GetValue d, [])]"]
    by (simp add: chk del: checked_step_ok checked_step_failed)
  from Cons.IH [OF rec] have l': "l' = ?l @ map (endpoint_entry data_flow) ds"
    and q2: "default_queries evs2 = []"
    and idx: "((\<forall>d \<in> set ds. v_pwszID d \<noteq> default_id) \<and> idx = ?di)
        \<or> (\<exists>k < length ds. idx = sint (i + 1 + word_of_nat k) \<and> v_pwszID (ds ! k) = default_id
              \<and> (\<forall>j < length ds. k < j \<longrightarrow> v_pwszID (ds ! j) \<noteq> default_id))"
    by simp_all
  have "((\<forall>x \<in> set (d # ds). v_pwszID x \<noteq> default_id) \<and> idx = default_index)
        \<or> (\<exists>k < length (d # ds). idx = sint (i + word_of_nat k) \<and> v_pwszID ((d # ds) ! k) = default_id
              \<and> (\<forall>j < length (d # ds). k < j \<longrightarrow> v_pwszID ((d # ds) ! j) \<noteq> default_id))"
    using idx
  proof
    assume a: "(\<forall>d \<in> set ds. v_pwszID d \<noteq> default_id) \<and> idx = ?di"
    show ?thesis
    proof (cases "v_pwszID d = default_id")
      case True
      have "\<forall>j < length (d # ds). 0 < j \<longrightarrow> v_pwszID ((d # ds) ! j) \<noteq> default_id"
      proof (intro allI impI)
        fix j assume "j < length (d # ds)" "0 < j"
        then obtain j' where "j = Suc j'" "j' < length ds"
          by (cases j) simp_all
        with a show "v_pwszID ((d # ds) ! j) \<noteq> default_id"
          by simp
      qed
      with True a have "0 < length (d # ds) \<and> idx = sint (i + word_of_nat 0)
          \<and> v_pwszID ((d # ds) ! 0) = default_id
          \<and> (\<forall>j < length (d # ds). 0 < j \<longrightarrow> v_pwszID ((d # ds) ! j) \<noteq> default_id)"
        by simp
      then show ?thesis by blast
    next
      case False
      with a show ?thesis by simp
    qed
  next
    assume "\<exists>k < length ds. idx = sint (i + 1 + word_of_nat k) \<and> v_pwszID (ds ! k) = default_id
              \<and> (\<forall>j < length ds. k < j \<longrightarrow> v_pwszID (ds ! j) \<noteq> default_id)"
    then obtain k where k: "k < length ds" "idx = sint (i + 1 + word_of_nat k)"
      "v_pwszID (ds ! k) = default_id"
      "\<forall>j < length ds. k < j \<longrightarrow> v_pwszID (ds ! j) \<noteq> default_id"
      by blast
    have "\<forall>j < length (d # ds). Suc k < j \<longrightarrow> v_pwszID ((d # ds) ! j) \<noteq> default_id"
    proof (intro allI impI)
      fix j assume "j < length (d # ds)" "Suc k < j"
      then obtain j' where "j = Suc j'" "j' < length ds" "k < j'"
        by (cases j) simp_all
      with k(4) show "v_pwszID ((d # ds) ! j) \<noteq> default_id"
        by simp
    qed
    with k have "Suc k < length (d # ds) \<and> idx = sint (i + word_of_nat (Suc k))
        \<and> v_pwszID ((d # ds) ! Suc k) = default_id
        \<and> (\<forall>j < length (d # ds). Suc k < j \<longrightarrow> v_pwszID ((d # ds) ! j) \<noteq> default_id)"
      by (simp add: ac_simps)
    then show ?thesis by blast
  qed
  with l' q1 q2 evs show ?case
    by (simp add: default_queries_append)
qed

lemma flow_step_returned:
  assumes "flow_loop ((data_flow, env) # rest) (default_index, endpoint_list) = (evs, Returned res)"
  obtains e1 e2 e3 default_id res1 where
    "get_default_endpoint (f_default env) = (e1, Returned default_id)"
    and "device_loop data_flow default_id 0 (f_devices env) (- 1, endpoint_list) = (e2, Returned res1)"
    and "flow_loop rest res1 = (e3, Returned res)"
    and "default_queries evs = default_queries e1 @ default_queries e2 @ default_queries e3"
proof -
  from assms obtain e0 e1 e2 e3 default_id res1 where
    chk: "checked [(CoCreateInstance, f_hr_CoCreateInstance env, []),
            (EnumAudioEndpoints data_flow, f_hr_EnumAudioEndpoints env, []),
            (GetCount, f_hr_GetCount env, [])] = (e0, Returned ())"
    and d: "get_default_endpoint (f_default env) = (e1, Returned default_id)"
    and l: "device_loop data_flow default_id 0 (f_devices env) (- 1, endpoint_list) = (e2, Returned res1)"
    and f: "flow_loop rest res1 = (e3, Returned res)"
    and evs: "evs = e0 @ e1 @ e2 @ e3"
    unfolding flow_loop.simps by (elim andThen_ReturnedD) auto
  have "default_queries e0 = []"
    using default_queries_checked [of "[(CoCreateInstance, f_hr_CoCreateInstance env, []),
            (EnumAudioEndpoints data_flow, f_hr_EnumAudioEndpoints env, []),
            (GetCount, f_hr_GetCount env, [])]"]
    by (simp add: chk del: checked_step_ok checked_step_failed)
  with evs have "default_queries evs = default_queries e1 @ default_queries e2 @ default_queries e3"
    by (simp add: default_queries_append)
  with d l f show ?thesis
    by (rule that)
qed

section \<open>set_format on extensible formats\<close>

text \<open>
  C5, as the code has it. For a native format tagged \<open>WAVE_FORMAT_EXTENSIBLE\<close>,
  \<open>set_format\<close> stores IEEE_FLOAT when the sub-format is the floating-point one and PCM
  when it is the PCM one; for any other sub-format it stores no tag at all, so the
  message keeps the tag it had on entry (Unknown only if it was Unknown before).
  Channels, sample rate and bits per sample are copied in every case, and the function
  has no failing path: it always returns the message.
\<close>

theorem set_format_extensible:
  assumes "wFormatTag format = WAVE_FORMAT_EXTENSIBLE"
  shows "canonical (format_tag (set_format fmt format)) =
           (if SubFormat format = KSDATAFORMAT_SUBTYPE_IEEE_FLOAT then IEEE_FLOAT
            else if SubFormat format = KSDATAFORMAT_SUBTYPE_PCM then PCM
            else canonical (format_tag fmt))
         \<and> channels (set_format fmt format) = nChannels format
         \<and> sample_rate (set_format fmt format) = nSamplesPerSec format
         \<and> bits_per_sample (set_format fmt format) = wBitsPerSample format"
  using assms
  by (simp add: set_format_def canonical_def WAVE_FORMAT_PCM_def WAVE_FORMAT_IEEE_FLOAT_def
      WAVE_FORMAT_EXTENSIBLE_def IsEqualGUID_def KSDATAFORMAT_SUBTYPE_PCM_def
      KSDATAFORMAT_SUBTYPE_IEEE_FLOAT_def)

text \<open>
  The theorem at a fresh message (tag 0) and an extensible format whose sub-format is
  neither PCM nor floating point: the tag reads Unknown.
\<close>

theorem set_format_extensible_witness:
  "wFormatTag \<lparr>wFormatTag = 0xFFFE, nChannels = 2, nSamplesPerSec = 48000,
      nAvgBytesPerSec = 192000, nBlockAlign = 4, wBitsPerSample = 16, cbSize = 22,
      SubFormat = (0x00000092, 0x0000, 0x0010, [0x80, 0x00, 0x00, 0xaa, 0x00, 0x38, 0x9b, 0x71])\<rparr>
     = WAVE_FORMAT_EXTENSIBLE
   \<and> canonical (format_tag (set_format
      \<lparr>format_tag = 0, channels = 0, sample_rate = 0, bits_per_sample = 0\<rparr>
      \<lparr>wFormatTag = 0xFFFE, nChannels = 2, nSamplesPerSec = 48000, nAvgBytesPerSec = 192000,
       nBlockAlign = 4, wBitsPerSample = 16, cbSize = 22,
       SubFormat = (0x00000092, 0x0000, 0x0010, [0x80, 0x00, 0x00, 0xaa, 0x00, 0x38, 0x9b, 0x71])\<rparr>))
     = Unknown"
  using set_format_extensible
    [of "\<lparr>wFormatTag = 0xFFFE, nChannels = 2, nSamplesPerSec = 48000, nAvgBytesPerSec = 192000,
          nBlockAlign = 4, wBitsPerSample = 16, cbSize = 22,
          SubFormat = (0x00000092, 0x0000, 0x0010, [0x80, 0x00, 0x00, 0xaa, 0x00, 0x38, 0x9b, 0x71])\<rparr>"
        "\<lparr>format_tag = 0, channels = 0, sample_rate = 0, bits_per_sample = 0\<rparr>"]
  by (simp add: canonical_def WAVE_FORMAT_PCM_def WAVE_FORMAT_IEEE_FLOAT_def
      WAVE_FORMAT_EXTENSIBLE_def KSDATAFORMAT_SUBTYPE_PCM_def KSDATAFORMAT_SUBTYPE_IEEE_FLOAT_def)

text \<open>
  As stated, with Unknown for every other sub-format, the claim fails: a message that
  already holds the PCM tag (from an earlier capture) still reads PCM after
  \<open>set_format\<close> is given an extensible format with the Dolby Digital sub-format.
\<close>

theorem set_format_stale_tag:
  "canonical (format_tag (set_format
      \<lparr>format_tag = 1, channels = 2, sample_rate = 48000, bits_per_sample = 16\<rparr>
      \<lparr>wFormatTag = 0xFFFE, nChannels = 2, nSamplesPerSec = 48000, nAvgBytesPerSec = 192000,
       nBlockAlign = 4, wBitsPerSample = 16, cbSize = 22,
       SubFormat = (0x00000092, 0x0000, 0x0010, [0x80, 0x00, 0x00, 0xaa, 0x00, 0x38, 0x9b, 0x71])\<rparr>))
     \<noteq> Unknown"
  by (simp add: set_format_def canonical_def WAVE_FORMAT_PCM_def WAVE_FORMAT_IEEE_FLOAT_def
      WAVE_FORMAT_EXTENSIBLE_def IsEqualGUID_def KSDATAFORMAT_SUBTYPE_PCM_def
      KSDATAFORMAT_SUBTYPE_IEEE_FLOAT_def)

section \<open>get_default_endpoint\<close>

text \<open>
  C7. Once the enumerator exists, \<open>get_default_endpoint\<close> answers the subsystem's
  not-found result (no playback device present) by returning the empty string: no error
  line is logged and the process is not ended. Every call puts the default-endpoint
  query to the subsystem, and when the query and \<open>GetId\<close> succeed the value returned is
  the identifier the subsystem gave in this very call; the function has no other input
  from which an earlier answer could come.
\<close>

theorem get_default_endpoint_no_device:
  assumes "\<not> FAILED (d_hr_CoCreateInstance e)"
  shows "(d_hr_GetDefaultAudioEndpoint e = HRESULT_FROM_WIN32 ERROR_NOT_FOUND \<longrightarrow>
            get_default_endpoint e =
              ([Call CoCreateInstance (d_hr_CoCreateInstance e),
                Call (GetDefaultAudioEndpoint eRender eConsole) (d_hr_GetDefaultAudioEndpoint e)], Returned []))
         \<and> Call (GetDefaultAudioEndpoint eRender eConsole) (d_hr_GetDefaultAudioEndpoint e)
              \<in> set (fst (get_default_endpoint e))
         \<and> (\<not> FAILED (d_hr_GetDefaultAudioEndpoint e) \<and> \<not> FAILED (d_hr_GetId e) \<longrightarrow>
              snd (get_default_endpoint e) = Returned (d_pwszID e))"
  using assms by (auto simp: get_default_endpoint_def ok_is_not_not_found)

theorem get_default_endpoint_no_device_witness:
  "\<not> FAILED (d_hr_CoCreateInstance
       \<lparr>d_hr_CoCreateInstance = 0, d_hr_GetDefaultAudioEndpoint = 0x80070490,
        d_hr_GetId = 0, d_pwszID = []\<rparr>)
   \<and> get_default_endpoint
       \<lparr>d_hr_CoCreateInstance = 0, d_hr_GetDefaultAudioEndpoint = 0x80070490,
        d_hr_GetId = 0, d_pwszID = []\<rparr>
     = ([Call CoCreateInstance 0, Call (GetDefaultAudioEndpoint eRender eConsole) 0x80070490], Returned [])"
  using get_default_endpoint_no_device
    [of "\<lparr>d_hr_CoCreateInstance = 0, d_hr_GetDefaultAudioEndpoint = 0x80070490,
          d_hr_GetId = 0, d_pwszID = []\<rparr>"]
  by (simp add: FAILED_def not_found_value)

section \<open>The capture loop: what is delivered\<close>

text \<open>
  C3, as the code has it. Take a run of the loop that starts with the flag unset, goes
  through ticks in which the timer wait and the calls succeed and no stop is requested,
  and comes to a further such tick, in which a stop may be requested. Its events are
  exactly the events of those ticks in order, after which it has ended if the stop was
  requested and otherwise goes on, from the same state, with the ticks that follow. A
  tick whose pending packet size is zero consists of the timer wait and the poll and
  nothing else: no sink call, no buffer operation. Each tick whose pending packet size
  is not zero makes exactly one sink call, with the byte length the code computes,
  which is \<open>frames_available * block_align\<close> wrapped to a signed 32-bit value: exactly
  that product whenever it is below \<open>2 ^ 31\<close>.
\<close>

theorem capture_loop_deliveries:
  assumes "list_all quiet pre" and "tick_ok t"
  shows "capture_loop ba False (pre @ t # post) =
           (concat (map (full_tick ba) (pre @ [t]))
              @ (if flag_after False t then [] else fst (capture_loop ba False post)),
            if flag_after False t then Returned True else snd (capture_loop ba False post))
         \<and> deliveries (concat (map (full_tick ba) (pre @ [t]))) =
             map (\<lambda>u. byte_count (numFramesAvailable u) ba)
                 (filter (\<lambda>u. next_packet_size u \<noteq> 0) (pre @ [t]))
         \<and> (next_packet_size u = 0 \<longrightarrow>
               full_tick ba u = [TimerWait False, Call GetNextPacketSize (hr_GetNextPacketSize u)])
         \<and> byte_count frames ba = signed_take_bit 31 (int (unat frames * unat ba))
         \<and> (unat frames * unat ba < 2 ^ 31 \<longrightarrow>
               byte_count frames ba = int (unat frames * unat ba))"
proof (intro conjI impI)
  show "capture_loop ba False (pre @ t # post) =
           (concat (map (full_tick ba) (pre @ [t]))
              @ (if flag_after False t then [] else fst (capture_loop ba False post)),
            if flag_after False t then Returned True else snd (capture_loop ba False post))"
    by (rule capture_loop_quiet_then_ok [OF assms])
  show "deliveries (concat (map (full_tick ba) (pre @ [t]))) =
             map (\<lambda>u. byte_count (numFramesAvailable u) ba)
                 (filter (\<lambda>u. next_packet_size u \<noteq> 0) (pre @ [t]))"
    by (rule deliveries_ticks)
  show "full_tick ba u = [TimerWait False, Call GetNextPacketSize (hr_GetNextPacketSize u)]"
    if "next_packet_size u = 0"
    using that by (simp add: full_tick_def)
  show "byte_count frames ba = signed_take_bit 31 (int (unat frames * unat ba))"
    by (rule byte_count_wrap)
  show "byte_count frames ba = int (unat frames * unat ba)"
    if "unat frames * unat ba < 2 ^ 31"
    using that by (rule byte_count_exact)
qed

text \<open>
  The theorem on the simulated sequence 0, 480, 0, 960 with block alignment 4, the stop
  being requested during the fourth tick: two sink calls, of 1920 and then 3840 bytes,
  and the loop ends. And on a tick with \<open>2 ^ 30\<close> frames followed by one with 480:
  lengths 0 and 1920.
\<close>

theorem capture_loop_deliveries_witness:
  "list_all quiet [packet 0, packet 480, packet 0]
   \<and> tick_ok ((packet 960)\<lparr>stop_write := Some True\<rparr>)
   \<and> capture_loop 4 False
        [packet 0, packet 480, packet 0, (packet 960)\<lparr>stop_write := Some True\<rparr>]
      = ([TimerWait False, Call GetNextPacketSize 0,
          TimerWait False, Call GetNextPacketSize 0, Call GetBuffer 0, Broadcast 1920 4,
            Call (ReleaseBuffer 480) 0,
          TimerWait False, Call GetNextPacketSize 0,
          TimerWait False, Call GetNextPacketSize 0, Call GetBuffer 0, Broadcast 3840 4,
            Call (ReleaseBuffer 960) 0], Returned True)
   \<and> deliveries (fst (capture_loop 4 False
        [packet 0, packet 480, packet 0, (packet 960)\<lparr>stop_write := Some True\<rparr>]))
      = [1920, 3840]
   \<and> list_all quiet [packet 0x40000000]
   \<and> deliveries (fst (capture_loop 4 False
        [packet 0x40000000, (packet 480)\<lparr>stop_write := Some True\<rparr>]))
      = [0, 1920]"
  using capture_loop_deliveries
    [of "[packet 0, packet 480, packet 0]" "(packet 960)\<lparr>stop_write := Some True\<rparr>"
        4 "[]" "packet 0" 480]
    capture_loop_deliveries
    [of "[packet 0x40000000]" "(packet 480)\<lparr>stop_write := Some True\<rparr>"
        4 "[]" "packet 0" 480]
  by (simp add: quiet_def tick_ok_def packet_def FAILED_def flag_after_def full_tick_def
      byte_count_def del: capture_loop.simps)

text \<open>
  Without the bound the claim fails: with \<open>2 ^ 30\<close> frames available and block
  alignment 4 the product is \<open>2 ^ 32\<close>, and the length handed to the sink is 0.
\<close>

theorem capture_loop_delivery_wraps:
  "deliveries (fst (capture_loop 4 False
     [\<lparr>stop_write = None, timer_ec = False, hr_GetNextPacketSize = 0,
       next_packet_size = 0x40000000, hr_GetBuffer = 0, numFramesAvailable = 0x40000000,
       hr_ReleaseBuffer = 0\<rparr>])) = [0]
   \<and> int (unat (0x40000000 :: 32 word) * unat (4 :: 16 word)) = 4294967296"
  by (simp add: tick_body_def FAILED_def byte_count_def flag_after_def)

section \<open>The capture loop: where the stop flag is read\<close>

text \<open>
  C2, as the code has it. The stop flag is read once per tick, at the bottom: after the
  timer wait, the packet-size poll and, when data is pending, the acquire, the sink call
  and the release of that tick. If it is set then, the loop is left and no later tick
  starts; if it is not, the next tick runs.
\<close>

theorem capture_loop_flag_at_bottom:
  assumes "tick_ok t"
  shows "(flag_after st t \<longrightarrow> capture_loop ba st (t # ts) = (full_tick ba t, Returned True))
       \<and> (\<not> flag_after st t \<longrightarrow>
            capture_loop ba st (t # ts) =
              (full_tick ba t @ fst (capture_loop ba False ts), snd (capture_loop ba False ts)))"
  using assms by (simp add: capture_loop_continue capture_loop_stop del: capture_loop.simps)

theorem capture_loop_flag_at_bottom_witness:
  "tick_ok \<lparr>stop_write = Some True, timer_ec = False, hr_GetNextPacketSize = 0,
      next_packet_size = 0, hr_GetBuffer = 0, numFramesAvailable = 0, hr_ReleaseBuffer = 0\<rparr>
   \<and> capture_loop 4 False
     [\<lparr>stop_write = Some True, timer_ec = False, hr_GetNextPacketSize = 0,
        next_packet_size = 0, hr_GetBuffer = 0, numFramesAvailable = 0, hr_ReleaseBuffer = 0\<rparr>,
      \<lparr>stop_write = None, timer_ec = False, hr_GetNextPacketSize = 0, next_packet_size = 480,
        hr_GetBuffer = 0, numFramesAvailable = 480, hr_ReleaseBuffer = 0\<rparr>]
     = ([TimerWait False, Call GetNextPacketSize 0], Returned True)"
  using capture_loop_flag_at_bottom
    [of "\<lparr>stop_write = Some True, timer_ec = False, hr_GetNextPacketSize = 0,
        next_packet_size = 0, hr_GetBuffer = 0, numFramesAvailable = 0, hr_ReleaseBuffer = 0\<rparr>"
      False 4
      "[\<lparr>stop_write = None, timer_ec = False, hr_GetNextPacketSize = 0, next_packet_size = 480,
        hr_GetBuffer = 0, numFramesAvailable = 480, hr_ReleaseBuffer = 0\<rparr>]"]
  by (simp add: tick_ok_def FAILED_def flag_after_def full_tick_def del: capture_loop.simps)

text \<open>
  As stated, with the flag observed at the top of the tick, the claim fails: when the
  flag is already set as the first tick begins, that tick still polls the packet size,
  acquires the buffer, calls the sink and releases the buffer.
\<close>

theorem capture_loop_first_tick_ignores_flag:
  "capture_loop 4 True
     [\<lparr>stop_write = None, timer_ec = False, hr_GetNextPacketSize = 0, next_packet_size = 480,
        hr_GetBuffer = 0, numFramesAvailable = 480, hr_ReleaseBuffer = 0\<rparr>]
   = ([TimerWait False, Call GetNextPacketSize 0, Call GetBuffer 0, Broadcast 1920 4,
       Call (ReleaseBuffer 480) 0], Returned True)"
  by (simp add: tick_body_def FAILED_def byte_count_def flag_after_def)

section \<open>The stream initialization and its fallback\<close>

text \<open>
  C1, as the code has it. Once the device is opened, the loopback initialization is
  attempted once; if it is rejected, exactly one more initialization is attempted, with
  the event-callback flag and the same format, and none after that. If both are
  rejected, an error line is logged (its text is never empty) and the process is ended
  with status -1: nothing is returned to the caller. If either is accepted and the three
  calls that follow succeed, the stream is started and the session is running.
\<close>

theorem initialization_fallback:
  assumes "opened env"
  shows "initialize_calls (fst (do_loopback_recording m endpoint_id env)) =
           (if FAILED (hr_Initialize_loopback env)
            then [(AUDCLNT_STREAMFLAGS_LOOPBACK, retag (mix_format env)),
                  (AUDCLNT_STREAMFLAGS_EVENTCALLBACK, retag (mix_format env))]
            else [(AUDCLNT_STREAMFLAGS_LOOPBACK, retag (mix_format env))])
         \<and> (FAILED (hr_Initialize_loopback env) \<and> FAILED (hr_Initialize_eventcallback env) \<longrightarrow>
              do_loopback_recording m endpoint_id env =
                (open_calls endpoint_id env
                 @ [Call (Initialize AUDCLNT_STREAMFLAGS_LOOPBACK 50000000 (retag (mix_format env)))
                      (hr_Initialize_loopback env),
                    Log (Warn ''Loopback initialization failed, trying with EVENTCALLBACK flag''),
                    Call (Initialize AUDCLNT_STREAMFLAGS_EVENTCALLBACK 50000000 (retag (mix_format env)))
                      (hr_Initialize_eventcallback env),
                    Log (Error [] ''Failed to initialize audio client for loopback''
                      (HRESULT_CODE (hr_Initialize_eventcallback env)))],
                 Exited (- 1))
              \<and> render wstr_win_err (Error [] ''Failed to initialize audio client for loopback''
                      (HRESULT_CODE (hr_Initialize_eventcallback env))) \<noteq> [])
         \<and> (initialized env \<and> started env \<longrightarrow>
              running (fst (do_loopback_recording m endpoint_id env)))"
proof -
  have a: "initialize_calls (fst (do_loopback_recording m endpoint_id env)) =
           (if FAILED (hr_Initialize_loopback env)
            then [(AUDCLNT_STREAMFLAGS_LOOPBACK, retag (mix_format env)),
                  (AUDCLNT_STREAMFLAGS_EVENTCALLBACK, retag (mix_format env))]
            else [(AUDCLNT_STREAMFLAGS_LOOPBACK, retag (mix_format env))])"
    using assms
    by (simp add: do_loopback_recording_def opened_def Let_def initialize_calls_append
        initialize_calls_andThen [of "initialize_stream _ _ _"]
        initialize_calls_andThen [of "checked _"]
        initialize_calls_andThen [of "capture_phase _ _ _ _"]
        initialize_calls_initialize_stream initialize_calls_checked
        initialize_calls_capture_phase split: outcome.splits)
  have b: "FAILED (hr_Initialize_loopback env) \<Longrightarrow> FAILED (hr_Initialize_eventcallback env) \<Longrightarrow>
              do_loopback_recording m endpoint_id env =
                (open_calls endpoint_id env
                 @ [Call (Initialize AUDCLNT_STREAMFLAGS_LOOPBACK 50000000 (retag (mix_format env)))
                      (hr_Initialize_loopback env),
                    Log (Warn ''Loopback initialization failed, trying with EVENTCALLBACK flag''),
                    Call (Initialize AUDCLNT_STREAMFLAGS_EVENTCALLBACK 50000000 (retag (mix_format env)))
                      (hr_Initialize_eventcallback env),
                    Log (Error [] ''Failed to initialize audio client for loopback''
                      (HRESULT_CODE (hr_Initialize_eventcallback env)))],
                 Exited (- 1))"
    using assms
    by (simp add: do_loopback_recording_def opened_def Let_def initialize_stream_def open_calls_def)
  have c: "initialized env \<Longrightarrow> started env \<Longrightarrow>
              running (fst (do_loopback_recording m endpoint_id env))"
    by (simp add: do_loopback_recording_started [OF assms] setup_calls_def running_append started_def)
  show ?thesis
    using a b c by simp
qed

text \<open>The theorem where the loopback initialization is rejected and the fallback accepted.\<close>

theorem initialization_fallback_witness:
  "opened (sample_env 0x88890008 0 [(packet 480)\<lparr>stop_write := Some True\<rparr>])
   \<and> initialize_calls (fst (do_loopback_recording (fresh_manager False) ''speakers''
        (sample_env 0x88890008 0 [(packet 480)\<lparr>stop_write := Some True\<rparr>])))
      = [(AUDCLNT_STREAMFLAGS_LOOPBACK, float_stereo\<lparr>wFormatTag := 3\<rparr>),
         (AUDCLNT_STREAMFLAGS_EVENTCALLBACK, float_stereo\<lparr>wFormatTag := 3\<rparr>)]
   \<and> running (fst (do_loopback_recording (fresh_manager False) ''speakers''
        (sample_env 0x88890008 0 [(packet 480)\<lparr>stop_write := Some True\<rparr>])))"
  using initialization_fallback
    [of "sample_env 0x88890008 0 [(packet 480)\<lparr>stop_write := Some True\<rparr>]"
        "fresh_manager False" "''speakers''"]
  by (simp add: sample_env_def opened_def initialized_def started_def FAILED_def
      retag_def float_stereo_def WAVE_FORMAT_EXTENSIBLE_def KSDATAFORMAT_SUBTYPE_IEEE_FLOAT_def
      WAVE_FORMAT_IEEE_FLOAT_def)

text \<open>
  As stated, with a final state and a reason returned to the caller, the claim fails:
  when both initializations are rejected the function does not return.
\<close>

theorem both_initializations_fail:
  "do_loopback_recording (fresh_manager False) ''speakers'' (sample_env 0x88890008 0x88890008 [])
   = ([Call CoCreateInstance 0, Call (GetDevice ''speakers'') 0, Call OpenPropertyStore 0,
       Call GetValue 0, Call Activate 0, Call GetMixFormat 0, Call GetDevicePeriod 0,
       Call (Initialize AUDCLNT_STREAMFLAGS_LOOPBACK 50000000
               (float_stereo\<lparr>wFormatTag := 3\<rparr>)) 0x88890008,
       Log (Warn ''Loopback initialization failed, trying with EVENTCALLBACK flag''),
       Call (Initialize AUDCLNT_STREAMFLAGS_EVENTCALLBACK 50000000
               (float_stereo\<lparr>wFormatTag := 3\<rparr>)) 0x88890008,
       Log (Error [] ''Failed to initialize audio client for loopback'' 8)],
      Exited (- 1))"
  by (simp add: do_loopback_recording_def sample_env_def FAILED_def initialize_stream_def
      retag_def float_stereo_def WAVE_FORMAT_EXTENSIBLE_def KSDATAFORMAT_SUBTYPE_IEEE_FLOAT_def
      WAVE_FORMAT_IEEE_FLOAT_def HRESULT_CODE_def Let_def)

section \<open>Stopping\<close>




text \<open>
  C9. When the timer wait fails in a running session, the loop is left at once without
  a log line, the stream is stopped by the same \<open>Stop\<close> call as after a requested stop,
  and the function returns normally: its caller gets what it gets when a stop is
  requested at that tick instead.
\<close>

theorem timer_failure_ends_as_stop:
  assumes "opened env" and "initialized env" and "started env" and "\<not> m_stoppped m"
    and "ticks env = pre @ t # post" and "list_all quiet pre" and "timer_ec t"
  shows "do_loopback_recording m endpoint_id env =
           (setup_calls endpoint_id env
              @ concat (map (full_tick (nBlockAlign (mix_format env))) pre)
              @ [TimerWait True, Call Stop (hr_Stop env)],
            Returned (m\<lparr>m_format := set_format (m_format m) (retag (mix_format env)),
                        m_stoppped := flag_after False t\<rparr>))
         \<and> (tick_ok t' \<and> stop_write t' = Some True \<longrightarrow>
              caller_sees (snd (do_loopback_recording m endpoint_id (env\<lparr>ticks := pre @ t' # post\<rparr>)))
                = caller_sees (snd (do_loopback_recording m endpoint_id env)))"
proof -
  have e: "opened (env\<lparr>ticks := pre @ t' # post\<rparr>)" "initialized (env\<lparr>ticks := pre @ t' # post\<rparr>)"
    "started (env\<lparr>ticks := pre @ t' # post\<rparr>)"
    using assms(1-3) by (simp_all add: opened_def initialized_def started_def)
  show ?thesis
    using assms(4,5)
    by (simp add: do_loopback_recording_started [OF assms(1-3)] do_loopback_recording_started [OF e]
        capture_phase_run capture_loop_quiet_then_break [OF assms(6,7)]
        capture_loop_quiet_then_stop [OF assms(6)] del: capture_loop.simps)
qed

theorem timer_failure_ends_as_stop_witness:
  "opened (sample_env 0 0 [packet 480, (packet 0)\<lparr>timer_ec := True\<rparr>])
   \<and> initialized (sample_env 0 0 [packet 480, (packet 0)\<lparr>timer_ec := True\<rparr>])
   \<and> started (sample_env 0 0 [packet 480, (packet 0)\<lparr>timer_ec := True\<rparr>])
   \<and> \<not> m_stoppped (fresh_manager False)
   \<and> list_all quiet [packet 480]
   \<and> timer_ec ((packet 0)\<lparr>timer_ec := True\<rparr>)
   \<and> do_loopback_recording (fresh_manager False) ''speakers''
        (sample_env 0 0 [packet 480, (packet 0)\<lparr>timer_ec := True\<rparr>])
      = ([Call CoCreateInstance 0, Call (GetDevice ''speakers'') 0, Call OpenPropertyStore 0,
          Call GetValue 0, Call Activate 0, Call GetMixFormat 0, Call GetDevicePeriod 0,
          Call (Initialize AUDCLNT_STREAMFLAGS_LOOPBACK 50000000
                  (float_stereo\<lparr>wFormatTag := 3\<rparr>)) 0,
          Call GetBufferSize 0, Call GetService 0, Call Start 0,
          TimerWait False, Call GetNextPacketSize 0, Call GetBuffer 0, Broadcast 3840 8,
          Call (ReleaseBuffer 480) 0,
          TimerWait True, Call Stop 0],
         Returned \<lparr>m_format = \<lparr>format_tag = 3, channels = 2, sample_rate = 48000,
                      bits_per_sample = 32\<rparr>, m_stoppped = False\<rparr>)
   \<and> caller_sees (snd (do_loopback_recording (fresh_manager False) ''speakers''
        (sample_env 0 0 [packet 480, (packet 0)\<lparr>stop_write := Some True\<rparr>])))
      = caller_sees (snd (do_loopback_recording (fresh_manager False) ''speakers''
        (sample_env 0 0 [packet 480, (packet 0)\<lparr>timer_ec := True\<rparr>])))"
  using timer_failure_ends_as_stop
    [of "sample_env 0 0 [packet 480, (packet 0)\<lparr>timer_ec := True\<rparr>]"
        "fresh_manager False" "[packet 480]" "(packet 0)\<lparr>timer_ec := True\<rparr>" "[]"
        "''speakers''" "(packet 0)\<lparr>stop_write := Some True\<rparr>"]
  by (simp add: sample_env_def opened_def initialized_def started_def FAILED_def
      quiet_def tick_ok_def packet_def fresh_manager_def flag_after_def
      retag_def float_stereo_def WAVE_FORMAT_EXTENSIBLE_def KSDATAFORMAT_SUBTYPE_IEEE_FLOAT_def
      WAVE_FORMAT_IEEE_FLOAT_def WAVE_FORMAT_PCM_def set_format_def setup_calls_def open_calls_def
      initialize_stream_def full_tick_def byte_count_def)

section \<open>The first tick\<close>

text \<open>
  C10, as the code has it. In every invocation that reaches the running state, the body
  of the loop is entered whatever the stop flag is: the events of the first tick follow
  the setup. A first tick whose timer wait and calls succeed is a full tick (timer
  wait, packet-size poll and, when data is pending, acquire, sink call and release);
  with the flag already set before the capture started, the run is then the setup, that
  one full tick, and the stop. A first tick whose timer wait fails ends the loop after
  that wait: the stream is stopped and the function returns.
\<close>

theorem first_tick_runs_whatever_the_flag:
  assumes "opened env" and "initialized env" and "started env" and "ticks env = t # ts"
  shows "(\<exists>rest. fst (do_loopback_recording m endpoint_id env) =
            setup_calls endpoint_id env @ fst (tick_body (nBlockAlign (mix_format env)) t) @ rest)
         \<and> (tick_ok t \<longrightarrow> fst (tick_body (nBlockAlign (mix_format env)) t)
               = full_tick (nBlockAlign (mix_format env)) t)
         \<and> (tick_ok t \<and> m_stoppped m \<and> stop_write t = None \<longrightarrow>
              do_loopback_recording m endpoint_id env =
                (setup_calls endpoint_id env @ full_tick (nBlockAlign (mix_format env)) t
                   @ [Call Stop (hr_Stop env)],
                 Returned (m\<lparr>m_format := set_format (m_format m) (retag (mix_format env)),
                             m_stoppped := True\<rparr>)))
         \<and> (timer_ec t \<longrightarrow>
              do_loopback_recording m endpoint_id env =
                (setup_calls endpoint_id env @ [TimerWait True, Call Stop (hr_Stop env)],
                 Returned (m\<lparr>m_format := set_format (m_format m) (retag (mix_format env)),
                             m_stoppped := flag_after (m_stoppped m) t\<rparr>)))"
proof -
  obtain r1 where r1: "fst (capture_loop (nBlockAlign (mix_format env)) (m_stoppped m) (t # ts)) =
      fst (tick_body (nBlockAlign (mix_format env)) t) @ r1"
    unfolding capture_loop.simps using fst_andThen_prefix by blast
  obtain r2 where r2: "fst (capture_phase (nBlockAlign (mix_format env)) (m_stoppped m) (t # ts) (hr_Stop env)) =
      fst (capture_loop (nBlockAlign (mix_format env)) (m_stoppped m) (t # ts)) @ r2"
    unfolding capture_phase_def using fst_andThen_prefix by blast
  have a: "\<exists>rest. fst (do_loopback_recording m endpoint_id env) =
            setup_calls endpoint_id env @ fst (tick_body (nBlockAlign (mix_format env)) t) @ rest"
    using assms(4) r1 r2 by (simp add: do_loopback_recording_started [OF assms(1-3)])
  have b: "tick_ok t \<Longrightarrow> m_stoppped m \<Longrightarrow> stop_write t = None \<Longrightarrow>
      do_loopback_recording m endpoint_id env =
                (setup_calls endpoint_id env @ full_tick (nBlockAlign (mix_format env)) t
                   @ [Call Stop (hr_Stop env)],
                 Returned (m\<lparr>m_format := set_format (m_format m) (retag (mix_format env)),
                             m_stoppped := True\<rparr>))"
    using assms(4)
    by (simp add: do_loopback_recording_started [OF assms(1-3)] capture_phase_run
        capture_loop_stop flag_after_def del: capture_loop.simps)
  have c: "timer_ec t \<Longrightarrow>
      do_loopback_recording m endpoint_id env =
                (setup_calls endpoint_id env @ [TimerWait True, Call Stop (hr_Stop env)],
                 Returned (m\<lparr>m_format := set_format (m_format m) (retag (mix_format env)),
                             m_stoppped := flag_after (m_stoppped m) t\<rparr>))"
    using assms(4)
    by (simp add: do_loopback_recording_started [OF assms(1-3)] capture_phase_run
        capture_loop_break del: capture_loop.simps)
  show ?thesis
    using a b c by (simp add: tick_body_ok)
qed

theorem first_tick_runs_whatever_the_flag_witness:
  "opened (sample_env 0 0 [packet 480])
   \<and> initialized (sample_env 0 0 [packet 480])
   \<and> started (sample_env 0 0 [packet 480])
   \<and> tick_ok (packet 480)
   \<and> m_stoppped (fresh_manager True)
   \<and> do_loopback_recording (fresh_manager True) ''speakers'' (sample_env 0 0 [packet 480])
      = ([Call CoCreateInstance 0, Call (GetDevice ''speakers'') 0, Call OpenPropertyStore 0,
          Call GetValue 0, Call Activate 0, Call GetMixFormat 0, Call GetDevicePeriod 0,
          Call (Initialize AUDCLNT_STREAMFLAGS_LOOPBACK 50000000
                  (float_stereo\<lparr>wFormatTag := 3\<rparr>)) 0,
          Call GetBufferSize 0, Call GetService 0, Call Start 0,
          TimerWait False, Call GetNextPacketSize 0, Call GetBuffer 0, Broadcast 3840 8,
          Call (ReleaseBuffer 480) 0,
          Call Stop 0],
         Returned \<lparr>m_format = \<lparr>format_tag = 3, channels = 2, sample_rate = 48000,
                      bits_per_sample = 32\<rparr>, m_stoppped = True\<rparr>)"
  using first_tick_runs_whatever_the_flag
    [of "sample_env 0 0 [packet 480]" "packet 480" "[]" "fresh_manager True" "''speakers''"]
  by (simp add: sample_env_def opened_def initialized_def started_def FAILED_def
      tick_ok_def packet_def fresh_manager_def
      retag_def float_stereo_def WAVE_FORMAT_EXTENSIBLE_def KSDATAFORMAT_SUBTYPE_IEEE_FLOAT_def
      WAVE_FORMAT_IEEE_FLOAT_def WAVE_FORMAT_PCM_def set_format_def setup_calls_def open_calls_def
      initialize_stream_def full_tick_def byte_count_def)

text \<open>
  As stated, with a full tick in every such invocation, the claim fails: when the first
  timer wait fails, the loop is left before the packet size is polled, and the function
  returns after the stop with no poll and no buffer operation made.
\<close>

theorem first_timer_wait_fails:
  "do_loopback_recording (fresh_manager True) ''speakers''
     (sample_env 0 0 [(packet 480)\<lparr>timer_ec := True\<rparr>])
   = ([Call CoCreateInstance 0, Call (GetDevice ''speakers'') 0, Call OpenPropertyStore 0,
       Call GetValue 0, Call Activate 0, Call GetMixFormat 0, Call GetDevicePeriod 0,
       Call (Initialize AUDCLNT_STREAMFLAGS_LOOPBACK 50000000
               (float_stereo\<lparr>wFormatTag := 3\<rparr>)) 0,
       Call GetBufferSize 0, Call GetService 0, Call Start 0,
       TimerWait True, Call Stop 0],
      Returned \<lparr>m_format = \<lparr>format_tag = 3, channels = 2, sample_rate = 48000,
                   bits_per_sample = 32\<rparr>, m_stoppped = True\<rparr>)"
  by (simp add: do_loopback_recording_def sample_env_def FAILED_def initialize_stream_def
      retag_def float_stereo_def WAVE_FORMAT_EXTENSIBLE_def KSDATAFORMAT_SUBTYPE_IEEE_FLOAT_def
      WAVE_FORMAT_IEEE_FLOAT_def WAVE_FORMAT_PCM_def Let_def capture_phase_def tick_body_def
      packet_def fresh_manager_def flag_after_def set_format_def)

section \<open>get_endpoint_list\<close>

text \<open>
  C4, as the code has it. In \<open>get_endpoint_list\<close> every failed query, other than the
  not-found answer to the default-endpoint query, is followed at once by an error line
  carrying the code of the failed HRESULT and by \<open>exit\<close> with status -1: the process
  ends and nothing is returned to the caller. A run without such a failure returns its
  value; the not-found answer alone never ends the process. The text of the error line
  is a fixed prefix followed by the system's message for that code.
\<close>

theorem enumeration_failure_exits:
  "(case after_fatal (fst (get_endpoint_list env endpoint_list)) of
      None \<Rightarrow> (\<exists>v. snd (get_endpoint_list env endpoint_list) = Returned v)
    | Some (hr, rest) \<Rightarrow>
        rest = [Log (Error [] [] (HRESULT_CODE hr))]
        \<and> snd (get_endpoint_list env endpoint_list) = Exited (- 1))
   \<and> render wstr_win_err (Error [] [] code) = ''exit_on_failed   '' @ wstr_win_err code"
  using exits_get_endpoint_list [of env endpoint_list]
  by (auto simp: exits_on_failure_def split: option.splits outcome.splits)

text \<open>
  The theorem where no playback device is present and every other query succeeds: the
  enumeration returns, with no default index.
\<close>

theorem enumeration_failure_exits_witness:
  "get_endpoint_list
     \<lparr>l_default = no_default,
      l_render = sample_flow 0 [] no_default,
      l_capture = sample_flow 0 [sample_device ''mic'' ''Microphone''] no_default\<rparr> []
   = ([Call CoCreateInstance 0, Call (GetDefaultAudioEndpoint eRender eConsole) 0x80070490,
       Call CoCreateInstance 0, Call (EnumAudioEndpoints eRender) 0, Call GetCount 0,
       Call CoCreateInstance 0, Call (GetDefaultAudioEndpoint eRender eConsole) 0x80070490,
       Call CoCreateInstance 0, Call (EnumAudioEndpoints eCapture) 0, Call GetCount 0,
       Call CoCreateInstance 0, Call (GetDefaultAudioEndpoint eRender eConsole) 0x80070490,
       Call (Item 0) 0, Call GetId 0, Call OpenPropertyStore 0, Call GetValue 0],
      Returned (- 1, [(''mic'', ''[Recording] Microphone'')]))
   \<and> (\<exists>v. snd (get_endpoint_list
     \<lparr>l_default = no_default,
      l_render = sample_flow 0 [] no_default,
      l_capture = sample_flow 0 [sample_device ''mic'' ''Microphone''] no_default\<rparr> []) = Returned v)"
  using enumeration_failure_exits
    [of "\<lparr>l_default = no_default,
      l_render = sample_flow 0 [] no_default,
      l_capture = sample_flow 0 [sample_device ''mic'' ''Microphone''] no_default\<rparr>" "[]"]
  by (simp add: get_endpoint_list_def get_default_endpoint_def no_default_def sample_flow_def
      sample_device_def FAILED_def not_found_value fatal_def)

text \<open>
  As stated, with the failure handed to the caller and the process going on, the claim
  fails: when \<open>EnumAudioEndpoints\<close> answers \<open>E_FAIL\<close> for the playback collection, the
  function does not return.
\<close>

theorem enumeration_failure_is_not_returned:
  "get_endpoint_list
     \<lparr>l_default = default_is ''spk'',
      l_render = sample_flow 0x80004005 [sample_device ''spk'' ''Speakers''] (default_is ''spk''),
      l_capture = sample_flow 0 [sample_device ''mic'' ''Microphone''] (default_is ''spk'')\<rparr> []
   = ([Call CoCreateInstance 0, Call (GetDefaultAudioEndpoint eRender eConsole) 0, Call GetId 0,
       Call CoCreateInstance 0, Call (EnumAudioEndpoints eRender) 0x80004005,
       Log (Error [] [] 0x4005)], Exited (- 1))"
  by (simp add: get_endpoint_list_def get_default_endpoint_def default_is_def sample_flow_def
      FAILED_def HRESULT_CODE_def not_found_value)

text \<open>
  C8. Every default-endpoint query of \<open>get_endpoint_list\<close> asks for the playback
  direction, one before the passes and one in each pass. When the function returns, the
  list has grown by the playback entries followed by the recording entries, and the
  index returned comes from the recording pass alone. If no recording device has the
  identifier that the query of that pass gave, the result is -1, whatever the playback
  collection holds. If some recording device has it, the result is the position of the
  last such device counted within the recording collection, while that device's entry
  sits further down the list by the number of entries before the recording ones: the
  number of playback devices is never added.
\<close>

theorem default_index_from_capture_pass:
  assumes "get_endpoint_list env endpoint_list = (evs, Returned (default_index, endpoint_list'))"
    and "snd (get_default_endpoint (f_default (l_capture env))) = Returned default_id"
  shows "endpoint_list' =
           endpoint_list @ map (endpoint_entry eRender) (f_devices (l_render env))
             @ map (endpoint_entry eCapture) (f_devices (l_capture env))
         \<and> default_queries evs = [(eRender, eConsole), (eRender, eConsole), (eRender, eConsole)]
         \<and> ((\<forall>d \<in> set (f_devices (l_capture env)). v_pwszID d \<noteq> default_id) \<longrightarrow>
              default_index = - 1)
         \<and> ((\<exists>d \<in> set (f_devices (l_capture env)). v_pwszID d = default_id) \<longrightarrow>
              (\<exists>k < length (f_devices (l_capture env)).
                  default_index = sint (word_of_nat k :: 32 word)
                  \<and> v_pwszID (f_devices (l_capture env) ! k) = default_id
                  \<and> (\<forall>j < length (f_devices (l_capture env)).
                        k < j \<longrightarrow> v_pwszID (f_devices (l_capture env) ! j) \<noteq> default_id)
                  \<and> endpoint_list' ! (length endpoint_list + length (f_devices (l_render env)) + k)
                      = endpoint_entry eCapture (f_devices (l_capture env) ! k)))"
proof -
  let ?r = "f_devices (l_render env)" and ?c = "f_devices (l_capture env)"
  from assms(1) obtain e0 e1 id0 where
    d0: "get_default_endpoint (l_default env) = (e0, Returned id0)"
    and fl: "flow_loop [(eRender, l_render env), (eCapture, l_capture env)] (- 1, endpoint_list)
       = (e1, Returned (default_index, endpoint_list'))"
    and evs: "evs = e0 @ e1"
    unfolding get_endpoint_list_def by (elim andThen_ReturnedD) simp
  from fl obtain a1 a2 a3 id1 res1 where
    d1: "get_default_endpoint (f_default (l_render env)) = (a1, Returned id1)"
    and r: "device_loop eRender id1 0 ?r (- 1, endpoint_list) = (a2, Returned res1)"
    and c0: "flow_loop [(eCapture, l_capture env)] res1 = (a3, Returned (default_index, endpoint_list'))"
    and q1: "default_queries e1 = default_queries a1 @ default_queries a2 @ default_queries a3"
    by (rule flow_step_returned)
  obtain i1 l1 where res1: "res1 = (i1, l1)"
    by (cases res1)
  from c0 [unfolded res1] obtain b1 b2 b3 id2 res2 where
    d2: "get_default_endpoint (f_default (l_capture env)) = (b1, Returned id2)"
    and c: "device_loop eCapture id2 0 ?c (- 1, l1) = (b2, Returned res2)"
    and f: "flow_loop [] res2 = (b3, Returned (default_index, endpoint_list'))"
    and q2: "default_queries a3 = default_queries b1 @ default_queries b2 @ default_queries b3"
    by (rule flow_step_returned)
  from d2 assms(2) have id2: "id2 = default_id"
    by simp
  from f have res2: "res2 = (default_index, endpoint_list')" and b3: "b3 = []"
    by simp_all
  from device_loop_exact [OF r [unfolded res1]]
  have l1: "l1 = endpoint_list @ map (endpoint_entry eRender) ?r" and qa2: "default_queries a2 = []"
    by simp_all
  from device_loop_exact [OF c [unfolded res2 id2]]
  have l': "endpoint_list' = l1 @ map (endpoint_entry eCapture) ?c"
    and qb2: "default_queries b2 = []"
    and idx: "((\<forall>d \<in> set ?c. v_pwszID d \<noteq> default_id) \<and> default_index = - 1)
        \<or> (\<exists>k < length ?c. default_index = sint (0 + word_of_nat k :: 32 word)
              \<and> v_pwszID (?c ! k) = default_id
              \<and> (\<forall>j < length ?c. k < j \<longrightarrow> v_pwszID (?c ! j) \<noteq> default_id))"
    by simp_all
  have list: "endpoint_list' =
           endpoint_list @ map (endpoint_entry eRender) ?r @ map (endpoint_entry eCapture) ?c"
    using l1 l' by simp
  have queries: "default_queries evs = [(eRender, eConsole), (eRender, eConsole), (eRender, eConsole)]"
    using evs q1 q2 qa2 qb2 b3
      default_queries_get_default_endpoint [OF d0] default_queries_get_default_endpoint [OF d1]
      default_queries_get_default_endpoint [OF d2]
    by (simp add: default_queries_append)
  have none: "(\<forall>d \<in> set ?c. v_pwszID d \<noteq> default_id) \<longrightarrow> default_index = - 1"
    using idx nth_mem [of _ ?c] by blast
  have some: "(\<exists>d \<in> set ?c. v_pwszID d = default_id) \<longrightarrow>
              (\<exists>k < length ?c.
                  default_index = sint (word_of_nat k :: 32 word)
                  \<and> v_pwszID (?c ! k) = default_id
                  \<and> (\<forall>j < length ?c. k < j \<longrightarrow> v_pwszID (?c ! j) \<noteq> default_id)
                  \<and> endpoint_list' ! (length endpoint_list + length ?r + k)
                      = endpoint_entry eCapture (?c ! k))"
  proof
    assume "\<exists>d \<in> set ?c. v_pwszID d = default_id"
    with idx obtain k where k: "k < length ?c" "default_index = sint (word_of_nat k :: 32 word)"
      "v_pwszID (?c ! k) = default_id"
      "\<forall>j < length ?c. k < j \<longrightarrow> v_pwszID (?c ! j) \<noteq> default_id"
      by auto
    have "endpoint_list' ! (length endpoint_list + length ?r + k) = endpoint_entry eCapture (?c ! k)"
      using k(1) by (simp add: list nth_append)
    with k show "\<exists>k < length ?c.
                  default_index = sint (word_of_nat k :: 32 word)
                  \<and> v_pwszID (?c ! k) = default_id
                  \<and> (\<forall>j < length ?c. k < j \<longrightarrow> v_pwszID (?c ! j) \<noteq> default_id)
                  \<and> endpoint_list' ! (length endpoint_list + length ?r + k)
                      = endpoint_entry eCapture (?c ! k)"
      by blast
  qed
  from list queries none some show ?thesis
    by blast
qed

text \<open>
  The theorem where the default playback device is the second of two playback devices
  and the one recording device has another identifier: the result is -1. And where the
  second of two recording devices has the identifier of the default playback device:
  the result is 1, its position among the recording devices, not 3, its position in
  the list.
\<close>

theorem default_index_from_capture_pass_witness:
  "snd (get_endpoint_list
     \<lparr>l_default = default_is ''spk2'',
      l_render = sample_flow 0 [sample_device ''spk1'' ''Speakers'',
                                sample_device ''spk2'' ''Headphones''] (default_is ''spk2''),
      l_capture = sample_flow 0 [sample_device ''mic1'' ''Microphone''] (default_is ''spk2'')\<rparr> [])
   = Returned (- 1, [(''spk1'', ''[Playback] Speakers''), (''spk2'', ''[Playback] Headphones''),
                     (''mic1'', ''[Recording] Microphone'')])
   \<and> v_pwszID (sample_device ''mic1'' ''Microphone'') \<noteq> ''spk2''
   \<and> snd (get_endpoint_list
     \<lparr>l_default = default_is ''set'',
      l_render = sample_flow 0 [sample_device ''spk1'' ''Speakers'',
                                sample_device ''set'' ''Headset''] (default_is ''set''),
      l_capture = sample_flow 0 [sample_device ''mic1'' ''Microphone'',
                                 sample_device ''set'' ''Headset''] (default_is ''set'')\<rparr> [])
   = Returned (1, [(''spk1'', ''[Playback] Speakers''), (''set'', ''[Playback] Headset''),
                   (''mic1'', ''[Recording] Microphone''), (''set'', ''[Recording] Headset'')])
   \<and> default_queries (fst (get_endpoint_list
     \<lparr>l_default = default_is ''set'',
      l_render = sample_flow 0 [sample_device ''spk1'' ''Speakers'',
                                sample_device ''set'' ''Headset''] (default_is ''set''),
      l_capture = sample_flow 0 [sample_device ''mic1'' ''Microphone'',
                                 sample_device ''set'' ''Headset''] (default_is ''set'')\<rparr> []))
   = [(eRender, eConsole), (eRender, eConsole), (eRender, eConsole)]"
proof -
  let ?a = "\<lparr>l_default = default_is ''spk2'',
      l_render = sample_flow 0 [sample_device ''spk1'' ''Speakers'',
                                sample_device ''spk2'' ''Headphones''] (default_is ''spk2''),
      l_capture = sample_flow 0 [sample_device ''mic1'' ''Microphone''] (default_is ''spk2'')\<rparr>"
  let ?b = "\<lparr>l_default = default_is ''set'',
      l_render = sample_flow 0 [sample_device ''spk1'' ''Speakers'',
                                sample_device ''set'' ''Headset''] (default_is ''set''),
      l_capture = sample_flow 0 [sample_device ''mic1'' ''Microphone'',
                                 sample_device ''set'' ''Headset''] (default_is ''set'')\<rparr>"
  have a: "get_endpoint_list ?a [] = (fst (get_endpoint_list ?a []),
      Returned (- 1, [(''spk1'', ''[Playback] Speakers''), (''spk2'', ''[Playback] Headphones''),
                      (''mic1'', ''[Recording] Microphone'')]))"
    by (simp add: get_endpoint_list_def get_default_endpoint_def default_is_def sample_flow_def
        sample_device_def FAILED_def not_found_value Let_def)
  have b: "get_endpoint_list ?b [] = (fst (get_endpoint_list ?b []),
      Returned (1, [(''spk1'', ''[Playback] Speakers''), (''set'', ''[Playback] Headset''),
                    (''mic1'', ''[Recording] Microphone''), (''set'', ''[Recording] Headset'')]))"
    by (simp add: get_endpoint_list_def get_default_endpoint_def default_is_def sample_flow_def
        sample_device_def FAILED_def not_found_value Let_def)
  have da: "snd (get_default_endpoint (f_default (l_capture ?a))) = Returned ''spk2''"
    by (simp add: get_default_endpoint_def default_is_def sample_flow_def FAILED_def
        not_found_value)
  have db: "snd (get_default_endpoint (f_default (l_capture ?b))) = Returned ''set''"
    by (simp add: get_default_endpoint_def default_is_def sample_flow_def FAILED_def
        not_found_value)
  from default_index_from_capture_pass [OF b db]
  have qb: "default_queries (fst (get_endpoint_list ?b []))
      = [(eRender, eConsole), (eRender, eConsole), (eRender, eConsole)]"
    by blast
  have ra: "snd (get_endpoint_list ?a []) =
      Returned (- 1, [(''spk1'', ''[Playback] Speakers''), (''spk2'', ''[Playback] Headphones''),
                      (''mic1'', ''[Recording] Microphone'')])"
    by (subst a) simp
  have rb: "snd (get_endpoint_list ?b []) =
      Returned (1, [(''spk1'', ''[Playback] Speakers''), (''set'', ''[Playback] Headset''),
                    (''mic1'', ''[Recording] Microphone''), (''set'', ''[Recording] Headset'')])"
    by (subst b) simp
  have nf: "v_pwszID (sample_device ''mic1'' ''Microphone'') \<noteq> ''spk2''"
    by (simp add: sample_device_def)
  from ra nf rb qb default_index_from_capture_pass [OF a da] show ?thesis
    by blast
qed

end
